theory Spec2Isabelle
  imports Complex_Main "HOL-Library.Sublist"
begin

section \<open>Python values\<close>

text \<open>
  The gateway of \<^verbatim>\<open>main.py\<close> handles values that come out of a JSON parser: the
  request body (\<^verbatim>\<open>request.get_json()\<close>) and the upstream reply
  (\<^verbatim>\<open>response.json()\<close>). A Python float is modelled by its exact value: Python
  compares a float with an int exactly, so \<open>Finite r\<close> with \<open>r\<close> the value of the
  double behaves as the double does in every comparison the module makes. The parser
  also yields the three non-finite floats (from \<^verbatim>\<open>1e999\<close> and from the literals
  \<^verbatim>\<open>Infinity\<close> and \<^verbatim>\<open>NaN\<close>, which it accepts). A dict is an association list in
  insertion order; \<open>None\<close> is \<open>JNull\<close>.
\<close>

datatype pyfloat = Finite rat | PosInf | NegInf | NaN

datatype json =
    JNull
  | JBool bool
  | JInt int
  | JFloat pyfloat
  | JStr string
  | JList "json list"
  | JObj "(string \<times> json) list"

type_synonym dict = "(string \<times> json) list"

text \<open>
  Exceptions. \<open>TypeError\<close> and \<open>AttributeError\<close> are raised by the interpreter on an
  ill-typed operation; \<open>Timeout\<close> is \<^verbatim>\<open>requests.exceptions.Timeout\<close>,
  \<open>RequestException m\<close> any other \<^verbatim>\<open>requests.exceptions.RequestException\<close> whose
  \<^verbatim>\<open>str(e)\<close> is \<open>m\<close>, and \<open>OtherException m\<close> any exception of a collaborator that is
  not a requests exception.
\<close>

datatype py_exn =
    TypeError
  | AttributeError
  | Timeout
  | RequestException string
  | OtherException string

text \<open>Truthiness, as \<^verbatim>\<open>if not x\<close> tests it.\<close>

fun truthy :: "json \<Rightarrow> bool" where
  "truthy JNull = False"
| "truthy (JBool b) = b"
| "truthy (JInt i) = (i \<noteq> 0)"
| "truthy (JFloat f) = (f \<noteq> Finite 0)"
| "truthy (JStr s) = (s \<noteq> [])"
| "truthy (JList xs) = (xs \<noteq> [])"
| "truthy (JObj d) = (d \<noteq> [])"

text \<open>\<^verbatim>\<open>d.get(k, dflt)\<close> and \<^verbatim>\<open>d[k] = v\<close> on a dict.\<close>

definition dict_get :: "dict \<Rightarrow> string \<Rightarrow> json \<Rightarrow> json" where
  "dict_get d k dflt = (case map_of d k of None \<Rightarrow> dflt | Some v \<Rightarrow> v)"

fun dict_set :: "dict \<Rightarrow> string \<Rightarrow> json \<Rightarrow> dict" where
  "dict_set [] k v = [(k, v)]"
| "dict_set ((k', v') # d) k v =
     (if k' = k then (k, v) # d else (k', v') # dict_set d k v)"

text \<open>
  \<^verbatim>\<open>x < c\<close> and \<^verbatim>\<open>x > c\<close> for an int literal \<open>c\<close>: defined on int, bool (an int in
  Python) and float, a \<open>TypeError\<close> on everything else. Every comparison with NaN is
  false.
\<close>

fun float_lt_int :: "pyfloat \<Rightarrow> int \<Rightarrow> bool" where
  "float_lt_int (Finite r) c = (r < of_int c)"
| "float_lt_int PosInf c = False"
| "float_lt_int NegInf c = True"
| "float_lt_int NaN c = False"

fun float_gt_int :: "pyfloat \<Rightarrow> int \<Rightarrow> bool" where
  "float_gt_int (Finite r) c = (r > of_int c)"
| "float_gt_int PosInf c = True"
| "float_gt_int NegInf c = False"
| "float_gt_int NaN c = False"

fun py_lt :: "json \<Rightarrow> int \<Rightarrow> py_exn + bool" where
  "py_lt (JInt i) c = Inr (i < c)"
| "py_lt (JBool b) c = Inr ((if b then 1 else 0) < c)"
| "py_lt (JFloat f) c = Inr (float_lt_int f c)"
| "py_lt _ c = Inl TypeError"

fun py_gt :: "json \<Rightarrow> int \<Rightarrow> py_exn + bool" where
  "py_gt (JInt i) c = Inr (i > c)"
| "py_gt (JBool b) c = Inr ((if b then 1 else 0) > c)"
| "py_gt (JFloat f) c = Inr (float_gt_int f c)"
| "py_gt _ c = Inl TypeError"

text \<open>\<^verbatim>\<open>a or b\<close> on comparisons: \<open>b\<close> is evaluated only when \<open>a\<close> is false.\<close>

definition py_or :: "py_exn + bool \<Rightarrow> py_exn + bool \<Rightarrow> py_exn + bool" where
  "py_or a b = (case a of Inl e \<Rightarrow> Inl e | Inr True \<Rightarrow> Inr True | Inr False \<Rightarrow> b)"

text \<open>
  \<^verbatim>\<open>len(x)\<close>, \<^verbatim>\<open>x[:100]\<close> and iteration over a sized value. Slicing is defined on
  strings and lists. On a dict it raises (a \<open>TypeError\<close> for the unhashable slice, a
  \<open>KeyError\<close> from Python 3.12 on); either way the exception is no requests exception,
  and the model has \<open>TypeError\<close> for both. Iterating a string gives its characters,
  iterating a dict its keys.
\<close>

fun py_len :: "json \<Rightarrow> py_exn + nat" where
  "py_len (JStr s) = Inr (length s)"
| "py_len (JList xs) = Inr (length xs)"
| "py_len (JObj d) = Inr (length d)"
| "py_len _ = Inl TypeError"

fun py_slice100 :: "json \<Rightarrow> py_exn + json" where
  "py_slice100 (JStr s) = Inr (JStr (take 100 s))"
| "py_slice100 (JList xs) = Inr (JList (take 100 xs))"
| "py_slice100 _ = Inl TypeError"

fun py_iter :: "json \<Rightarrow> json list" where
  "py_iter (JList xs) = xs"
| "py_iter (JStr s) = map (\<lambda>c. JStr [c]) s"
| "py_iter (JObj d) = map (\<lambda>kv. JStr (fst kv)) d"
| "py_iter _ = []"

text \<open>
  \<^verbatim>\<open>str(i)\<close> of an int and \<^verbatim>\<open>repr\<close> of a list of strings, for the f-strings.
  \<open>py_repr_str\<close> is \<^verbatim>\<open>repr\<close> on strings of printable characters without quote or
  backslash, which the model names are: the string between single quotes.
\<close>

fun str_nat :: "nat \<Rightarrow> string" where
  "str_nat n = (if n < 10 then [char_of (48 + n)]
                else str_nat (n div 10) @ [char_of (48 + n mod 10)])"

declare str_nat.simps [simp del]

definition str_int :: "int \<Rightarrow> string" where
  "str_int i = (if i < 0 then CHR ''-'' # str_nat (nat (- i)) else str_nat (nat i))"

definition py_repr_str :: "string \<Rightarrow> string" where
  "py_repr_str s = [CHR 0x27] @ s @ [CHR 0x27]"

fun join_comma :: "string list \<Rightarrow> string" where
  "join_comma [] = []"
| "join_comma [s] = s"
| "join_comma (s # t # ss) = s @ '', '' @ join_comma (t # ss)"

definition py_repr_list :: "string list \<Rightarrow> string" where
  "py_repr_list ss = ''['' @ join_comma (map py_repr_str ss) @ '']''"

section \<open>The module's surroundings\<close>

text \<open>
  What \<^verbatim>\<open>_generate_image_core\<close> reads from outside itself: the module global
  \<^verbatim>\<open>TOGETHER_API_KEY\<close> (the module binds it to a non-empty string literal; it is a
  parameter here so that both branches of the check on it are branches of the model),
  the collaborator \<^verbatim>\<open>requests.post\<close>, the clock behind
  \<^verbatim>\<open>datetime.now().isoformat()\<close>, and the text \<^verbatim>\<open>str(e)\<close> of an exception.
\<close>

record http_request =
  post_url :: string
  post_headers :: "(string \<times> string) list"
  post_json :: dict
  post_timeout :: nat

record response =
  status_code :: int
  resp_text :: string
  resp_json :: "py_exn + json"

record env =
  TOGETHER_API_KEY :: string
  requests_post :: "http_request \<Rightarrow> py_exn + response"
  now_isoformat :: string
  exc_str :: "py_exn \<Rightarrow> string"

definition TOGETHER_API_URL :: string where
  "TOGETHER_API_URL = ''https://api.together.xyz/v1/images/generations''"

definition AVAILABLE_MODELS :: "string list" where
  "AVAILABLE_MODELS =
    [''black-forest-labs/FLUX.1-schnell-Free'',
     ''black-forest-labs/FLUX.1-dev'',
     ''stabilityai/stable-diffusion-xl-base-1.0'',
     ''stabilityai/stable-diffusion-2-1'',
     ''runwayml/stable-diffusion-v1-5'']"

section \<open>\<^verbatim>\<open>_generate_image_core\<close>\<close>

text \<open>\<^verbatim>\<open>model not in AVAILABLE_MODELS\<close>: only a string equals a string.\<close>

fun model_in :: "json \<Rightarrow> string list \<Rightarrow> bool" where
  "model_in (JStr s) ms = (s \<in> set ms)"
| "model_in _ ms = False"

text \<open>Lines 88 to 111: the payload and its optional parameters.\<close>

definition default_negative_prompt :: string where
  "default_negative_prompt =
    ''blurry, low quality, distorted, pixelated, artifacts, bad anatomy''"

definition build_payload ::
  "dict \<Rightarrow> json \<Rightarrow> json \<Rightarrow> json \<Rightarrow> json \<Rightarrow> json \<Rightarrow> json \<Rightarrow> dict" where
  "build_payload d model prompt width height steps n =
    (let payload = [(''model'', model), (''prompt'', prompt), (''width'', width),
                    (''height'', height), (''steps'', steps), (''n'', n)];
         payload = (case map_of d ''negative_prompt'' of
                      Some v \<Rightarrow> dict_set payload ''negative_prompt'' v
                    | None \<Rightarrow> dict_set payload ''negative_prompt''
                                (JStr default_negative_prompt));
         payload = (case map_of d ''seed'' of
                      Some v \<Rightarrow> dict_set payload ''seed'' v
                    | None \<Rightarrow> payload);
         payload = (case map_of d ''guidance_scale'' of
                      Some v \<Rightarrow> dict_set payload ''guidance_scale'' v
                    | None \<Rightarrow> dict_set payload ''guidance_scale''
                                (JFloat (Finite (15 / 2))))
     in payload)"

text \<open>
  Lines 137 to 154: the loop over \<^verbatim>\<open>enumerate(result['data'])\<close>. The log lines
  evaluate \<^verbatim>\<open>image_data.keys()\<close> and \<^verbatim>\<open>len(image_data['b64_json'])\<close>, which raise
  on an entry that is not a dict and on a base64 value without a length.
\<close>

fun process_images :: "nat \<Rightarrow> json list \<Rightarrow> json list \<Rightarrow> py_exn + json list" where
  "process_images i [] images_data = Inr images_data"
| "process_images i (image_data # rest) images_data =
    (case image_data of
       JObj e \<Rightarrow>
         (case map_of e ''url'' of
            Some u \<Rightarrow>
              process_images (Suc i) rest
                (images_data @ [JObj [(''url'', u), (''index'', JInt (int i))]])
          | None \<Rightarrow>
              (case map_of e ''b64_json'' of
                 Some b \<Rightarrow>
                   (case py_len b of
                      Inl ex \<Rightarrow> Inl ex
                    | Inr _ \<Rightarrow>
                        process_images (Suc i) rest
                          (images_data @ [JObj [(''b64_json'', b), (''index'', JInt (int i))]]))
               | None \<Rightarrow> process_images (Suc i) rest images_data))
     | _ \<Rightarrow> Inl AttributeError)"

text \<open>Line 134: \<^verbatim>\<open>'data' in result and len(result['data']) > 0\<close>.\<close>

fun has_data :: "json \<Rightarrow> py_exn + bool" where
  "has_data (JObj d) =
     (case map_of d ''data'' of
        None \<Rightarrow> Inr False
      | Some v \<Rightarrow> (case py_len v of Inl ex \<Rightarrow> Inl ex | Inr k \<Rightarrow> Inr (k > 0)))"
| "has_data (JList xs) = (if JStr ''data'' \<in> set xs then Inl TypeError else Inr False)"
| "has_data (JStr s) = (if sublist ''data'' s then Inl TypeError else Inr False)"
| "has_data _ = Inl TypeError"

fun result_data :: "json \<Rightarrow> json" where
  "result_data (JObj d) = dict_get d ''data'' JNull"
| "result_data _ = JNull"

text \<open>Lines 124 to 175: the body of the \<^verbatim>\<open>try\<close> after the call has returned.\<close>

definition process_response ::
  "string \<Rightarrow> json \<Rightarrow> json \<Rightarrow> json \<Rightarrow> json \<Rightarrow> json \<Rightarrow> json \<Rightarrow> dict \<Rightarrow> response
     \<Rightarrow> py_exn + json \<times> int" where
  "process_response now prompt model width height steps n payload response =
    (if status_code response \<noteq> 200 then
       (let error_msg = ''Together AI API error: '' @ str_int (status_code response);
            error_msg = (if resp_text response \<noteq> []
                         then error_msg @ '' - '' @ resp_text response else error_msg)
        in Inr (JObj [(''error'', JStr error_msg)], status_code response))
     else
       (case resp_json response of
          Inl ex \<Rightarrow> Inl ex
        | Inr result \<Rightarrow>
            (case has_data result of
               Inl ex \<Rightarrow> Inl ex
             | Inr False \<Rightarrow> Inr (JObj [(''error'', JStr ''No images generated'')], 500)
             | Inr True \<Rightarrow>
                 (case process_images 0 (py_iter (result_data result)) [] of
                    Inl ex \<Rightarrow> Inl ex
                  | Inr images_data \<Rightarrow>
                      Inr (JObj [(''success'', JBool True),
                                 (''images'', JList images_data),
                                 (''prompt'', prompt),
                                 (''model'', model),
                                 (''parameters'',
                                    JObj [(''width'', width),
                                          (''height'', height),
                                          (''steps'', steps),
                                          (''n'', n),
                                          (''guidance_scale'',
                                             dict_get payload ''guidance_scale'' JNull),
                                          (''negative_prompt'',
                                             dict_get payload ''negative_prompt'' JNull)]),
                                 (''timestamp'', JStr now)], 200)))))"

text \<open>Lines 177 to 181: the two \<^verbatim>\<open>except\<close> clauses; anything else propagates.\<close>

fun except_requests :: "py_exn + json \<times> int \<Rightarrow> py_exn + json \<times> int" where
  "except_requests (Inl Timeout) =
     Inr (JObj [(''error'', JStr ''Request timeout - image generation took too long'')], 408)"
| "except_requests (Inl (RequestException m)) =
     Inr (JObj [(''error'', JStr (''Request failed: '' @ m))], 500)"
| "except_requests r = r"

text \<open>
  The core. It returns the list of requests it has posted (none or one) beside its
  result, which is the pair of the reply dict and the status, or the exception that
  leaves the function.
\<close>

definition generate_image_core ::
  "env \<Rightarrow> json \<Rightarrow> http_request list \<times> (py_exn + json \<times> int)" where
  "generate_image_core env data =
    (if TOGETHER_API_KEY env = [] then
       ([], Inr (JObj [(''error'', JStr ''Together AI API key not configured''),
                       (''message'',
                          JStr ''Please set TOGETHER_API_KEY environment variable'')], 500))
     else
       (case data of
          JObj d \<Rightarrow>
            (let prompt = dict_get d ''prompt'' JNull in
             if \<not> truthy prompt then
               ([], Inr (JObj [(''error'', JStr ''Prompt is required'')], 400))
             else
               (let model = dict_get d ''model'' (JStr (AVAILABLE_MODELS ! 0));
                    width = dict_get d ''width'' (JInt 1024);
                    height = dict_get d ''height'' (JInt 1024);
                    steps = dict_get d ''steps'' (JInt 12);
                    n = dict_get d ''n'' (JInt 1)
                in
                if \<not> model_in model AVAILABLE_MODELS then
                  ([], Inr (JObj [(''error'',
                       JStr (''Invalid model. Available models: ''
                             @ py_repr_list AVAILABLE_MODELS))], 400))
                else
                  (case py_or (py_lt width 256) (py_or (py_gt width 2048)
                          (py_or (py_lt height 256) (py_gt height 2048))) of
                     Inl ex \<Rightarrow> ([], Inl ex)
                   | Inr True \<Rightarrow>
                       ([], Inr (JObj [(''error'',
                          JStr ''Width and height must be between 256 and 2048 pixels'')],
                          400))
                   | Inr False \<Rightarrow>
                       (case py_or (py_lt steps 1) (py_gt steps 12) of
                          Inl ex \<Rightarrow> ([], Inl ex)
                        | Inr True \<Rightarrow>
                            ([], Inr (JObj [(''error'',
                               JStr ''Steps must be between 1 and 12 for Together AI models'')],
                               400))
                        | Inr False \<Rightarrow>
                            (let headers =
                                   [(''Authorization'', ''Bearer '' @ TOGETHER_API_KEY env),
                                    (''Content-Type'', ''application/json'')];
                                 payload = build_payload d model prompt width height steps n
                             in
                             case py_slice100 prompt of
                               Inl ex \<Rightarrow> ([], Inl ex)
                             | Inr _ \<Rightarrow>
                                 (let req = \<lparr>post_url = TOGETHER_API_URL,
                                             post_headers = headers,
                                             post_json = payload,
                                             post_timeout = 120\<rparr>
                                  in ([req],
                                      except_requests
                                        (case requests_post env req of
                                           Inl ex \<Rightarrow> Inl ex
                                         | Inr response \<Rightarrow>
                                             process_response (now_isoformat env) prompt
                                               model width height steps n payload
                                               response))))))))
        | _ \<Rightarrow> ([], Inl AttributeError)))"

section \<open>The two routes\<close>

text \<open>
  A route receives what \<^verbatim>\<open>request.get_json()\<close> gives (a value, or the exception it
  raises) and returns the posted requests beside the reply and its status;
  \<^verbatim>\<open>jsonify\<close> leaves the dict as it is.
\<close>

definition generate_image ::
  "env \<Rightarrow> py_exn + json \<Rightarrow> http_request list \<times> json \<times> int" where
  "generate_image env get_json =
    (case get_json of
       Inl ex \<Rightarrow>
         ([], JObj [(''error'', JStr (''Internal server error: '' @ exc_str env ex))], 500)
     | Inr data \<Rightarrow>
         if \<not> truthy data then
           ([], JObj [(''error'', JStr ''No JSON data provided'')], 400)
         else
           (case generate_image_core env data of
              (posted, Inr (result, status)) \<Rightarrow> (posted, result, status)
            | (posted, Inl ex) \<Rightarrow>
                (posted,
                 JObj [(''error'', JStr (''Internal server error: '' @ exc_str env ex))],
                 500)))"

definition generate_image_simple ::
  "env \<Rightarrow> py_exn + json \<Rightarrow> http_request list \<times> json \<times> int" where
  "generate_image_simple env get_json =
    (case get_json of
       Inl ex \<Rightarrow> ([], JObj [(''error'', JStr (exc_str env ex))], 500)
     | Inr data \<Rightarrow>
         (case data of
            JObj d \<Rightarrow>
              (let prompt = dict_get d ''prompt'' JNull in
               if \<not> truthy prompt then
                 ([], JObj [(''error'', JStr ''Prompt is required'')], 400)
               else
                 (let enhanced_data =
                        JObj [(''prompt'', prompt),
                              (''model'', JStr (AVAILABLE_MODELS ! 0)),
                              (''width'', JInt 1024),
                              (''height'', JInt 1024),
                              (''steps'', JInt 12),
                              (''n'', JInt 1)]
                  in case generate_image_core env enhanced_data of
                       (posted, Inr (result, status)) \<Rightarrow> (posted, result, status)
                     | (posted, Inl ex) \<Rightarrow>
                         (posted, JObj [(''error'', JStr (exc_str env ex))], 500)))
          | _ \<Rightarrow> ([], JObj [(''error'', JStr (exc_str env AttributeError))], 500)))"

section \<open>Notions for stating the properties\<close>

text \<open>
  Names for parts of \<^verbatim>\<open>_generate_image_core\<close>, used to state and prove its
  properties: the two range tests of lines 71 and 77, the condition under which the
  function reaches \<^verbatim>\<open>requests.post\<close>, the request it then posts, and what it returns
  from there. The lemmas \<open>core_validated\<close>, \<open>core_not_validated\<close> and \<open>core_posted\<close>
  below tie them to the function. \<open>demo_env\<close> and \<open>demo_response\<close> are concrete
  surroundings for the instances.
\<close>

definition demo_response :: "json \<Rightarrow> response" where
  "demo_response body = \<lparr>status_code = 200, resp_text = ''ok'', resp_json = Inr body\<rparr>"

definition demo_env :: "string \<Rightarrow> py_exn + response \<Rightarrow> env" where
  "demo_env key outcome =
     \<lparr>TOGETHER_API_KEY = key, requests_post = (\<lambda>req. outcome),
      now_isoformat = ''2025-01-01T00:00:00'', exc_str = (\<lambda>ex. ''exception'')\<rparr>"

definition dims_out_of_range :: "dict \<Rightarrow> py_exn + bool" where
  "dims_out_of_range d =
     py_or (py_lt (dict_get d ''width'' (JInt 1024)) 256)
       (py_or (py_gt (dict_get d ''width'' (JInt 1024)) 2048)
          (py_or (py_lt (dict_get d ''height'' (JInt 1024)) 256)
             (py_gt (dict_get d ''height'' (JInt 1024)) 2048)))"

definition steps_out_of_range :: "dict \<Rightarrow> py_exn + bool" where
  "steps_out_of_range d =
     py_or (py_lt (dict_get d ''steps'' (JInt 12)) 1) (py_gt (dict_get d ''steps'' (JInt 12)) 12)"

definition validated :: "env \<Rightarrow> dict \<Rightarrow> bool" where
  "validated env d \<longleftrightarrow>
     TOGETHER_API_KEY env \<noteq> [] \<and>
     truthy (dict_get d ''prompt'' JNull) \<and>
     model_in (dict_get d ''model'' (JStr (AVAILABLE_MODELS ! 0))) AVAILABLE_MODELS \<and>
     dims_out_of_range d = Inr False \<and>
     steps_out_of_range d = Inr False \<and>
     (case py_slice100 (dict_get d ''prompt'' JNull) of Inl ex \<Rightarrow> False | Inr s \<Rightarrow> True)"

definition payload_of :: "dict \<Rightarrow> dict" where
  "payload_of d =
     build_payload d (dict_get d ''model'' (JStr (AVAILABLE_MODELS ! 0)))
       (dict_get d ''prompt'' JNull) (dict_get d ''width'' (JInt 1024))
       (dict_get d ''height'' (JInt 1024)) (dict_get d ''steps'' (JInt 12))
       (dict_get d ''n'' (JInt 1))"

definition upstream_request :: "env \<Rightarrow> dict \<Rightarrow> http_request" where
  "upstream_request env d =
     \<lparr>post_url = TOGETHER_API_URL,
      post_headers = [(''Authorization'', ''Bearer '' @ TOGETHER_API_KEY env),
                      (''Content-Type'', ''application/json'')],
      post_json = payload_of d,
      post_timeout = 120\<rparr>"

definition after_post :: "env \<Rightarrow> dict \<Rightarrow> py_exn + json \<times> int" where
  "after_post env d =
     except_requests
       (case requests_post env (upstream_request env d) of
          Inl ex \<Rightarrow> Inl ex
        | Inr response \<Rightarrow>
            process_response (now_isoformat env) (dict_get d ''prompt'' JNull)
              (dict_get d ''model'' (JStr (AVAILABLE_MODELS ! 0)))
              (dict_get d ''width'' (JInt 1024)) (dict_get d ''height'' (JInt 1024))
              (dict_get d ''steps'' (JInt 12)) (dict_get d ''n'' (JInt 1))
              (payload_of d) response)"

text \<open>
  A JSON number whose value lies in \<open>[lo, hi]\<close>: an int, a bool (an int in Python) or
  a finite float.
\<close>

fun num_in_range :: "int \<Rightarrow> int \<Rightarrow> json \<Rightarrow> bool" where
  "num_in_range lo hi (JInt i) = (lo \<le> i \<and> i \<le> hi)"
| "num_in_range lo hi (JBool b) = (lo \<le> (if b then 1 else 0) \<and> (if b then 1 else 0) \<le> hi)"
| "num_in_range lo hi (JFloat (Finite r)) = (of_int lo \<le> r \<and> r \<le> of_int hi)"
| "num_in_range lo hi _ = False"

text \<open>
  The dict of lines 158 to 172, as a function of the request and of the images.
\<close>

definition success_body :: "env \<Rightarrow> dict \<Rightarrow> json list \<Rightarrow> json" where
  "success_body env d images_data =
     JObj [(''success'', JBool True),
           (''images'', JList images_data),
           (''prompt'', dict_get d ''prompt'' JNull),
           (''model'', dict_get d ''model'' (JStr (AVAILABLE_MODELS ! 0))),
           (''parameters'',
              JObj [(''width'', dict_get d ''width'' (JInt 1024)),
                    (''height'', dict_get d ''height'' (JInt 1024)),
                    (''steps'', dict_get d ''steps'' (JInt 12)),
                    (''n'', dict_get d ''n'' (JInt 1)),
                    (''guidance_scale'', dict_get (payload_of d) ''guidance_scale'' JNull),
                    (''negative_prompt'', dict_get (payload_of d) ''negative_prompt'' JNull)]),
           (''timestamp'', JStr (now_isoformat env))]"

text \<open>
  An entry of the upstream \<open>data\<close> array on which the loop does not raise: a dict whose
  \<open>b64_json\<close> value, where the loop reads it, has a length (a string, a list or a dict).
\<close>

fun has_len :: "json \<Rightarrow> bool" where
  "has_len (JStr s) = True"
| "has_len (JList xs) = True"
| "has_len (JObj d) = True"
| "has_len _ = False"

fun entry_well_typed :: "json \<Rightarrow> bool" where
  "entry_well_typed (JObj e) =
     (case map_of e ''url'' of
        Some u \<Rightarrow> True
      | None \<Rightarrow> (case map_of e ''b64_json'' of Some b \<Rightarrow> has_len b | None \<Rightarrow> True))"
| "entry_well_typed _ = False"

text \<open>
  The translation of a reply as the specification words it: an entry with a \<open>url\<close> field
  gives a \<open>{url, index}\<close> result, otherwise one with a \<open>b64_json\<close> field gives a
  \<open>{b64_json, index}\<close> result, otherwise it gives nothing; \<open>index\<close> is the position of
  the entry in the array. This is the specification's side of the comparison with
  \<open>process_images\<close>.
\<close>

fun spec_image_result :: "nat \<Rightarrow> json \<Rightarrow> json option" where
  "spec_image_result i (JObj e) =
     (case map_of e ''url'' of
        Some u \<Rightarrow> Some (JObj [(''url'', u), (''index'', JInt (int i))])
      | None \<Rightarrow>
          (case map_of e ''b64_json'' of
             Some b \<Rightarrow> Some (JObj [(''b64_json'', b), (''index'', JInt (int i))])
           | None \<Rightarrow> None))"
| "spec_image_result i _ = None"

definition spec_images_from :: "nat \<Rightarrow> json list \<Rightarrow> json list" where
  "spec_images_from i entries =
     List.map_filter (\<lambda>(j, e). spec_image_result j e) (enumerate i entries)"

definition spec_images :: "json list \<Rightarrow> json list" where
  "spec_images entries = spec_images_from 0 entries"

text \<open>
  An image result for position \<open>j\<close>: a dict with exactly two entries, one encoding
  (\<open>url\<close> or \<open>b64_json\<close>) and then \<open>index\<close> with value \<open>j\<close>; the lemma
  \<open>image_result_at_iff\<close> below says so.
\<close>

definition image_result_at :: "json \<Rightarrow> nat \<Rightarrow> bool" where
  "image_result_at img j \<longleftrightarrow>
     (case img of
        JObj f \<Rightarrow>
          img = JObj [(''url'', dict_get f ''url'' JNull), (''index'', JInt (int j))] \<or>
          img = JObj [(''b64_json'', dict_get f ''b64_json'' JNull), (''index'', JInt (int j))]
      | _ \<Rightarrow> False)"

text \<open>
  A reply array with a URL entry, a base64 entry, an entry with neither and an entry
  with both, and the two request bodies of the comparison of the routes.
\<close>

definition demo_entries :: "json list" where
  "demo_entries =
     [JObj [(''url'', JStr ''x'')],
      JObj [(''b64_json'', JStr ''y'')],
      JObj [],
      JObj [(''b64_json'', JStr ''v''), (''url'', JStr ''u'')]]"

definition simple_body :: json where
  "simple_body = JObj [(''prompt'', JStr ''a cat'')]"

definition full_body :: json where
  "full_body =
     JObj [(''prompt'', JStr ''a cat''),
           (''model'', JStr (AVAILABLE_MODELS ! 0)),
           (''width'', JInt 1024),
           (''height'', JInt 1024),
           (''steps'', JInt 12),
           (''n'', JInt 1)]"

section \<open>The core, stage by stage\<close>

lemma core_validated:
  "validated env d \<Longrightarrow>
     generate_image_core env (JObj d) = ([upstream_request env d], after_post env d)"
  unfolding after_post_def upstream_request_def payload_of_def
  by (auto simp: validated_def generate_image_core_def dims_out_of_range_def
    steps_out_of_range_def Let_def split: sum.splits)

lemma core_not_validated:
  "\<not> validated env d \<Longrightarrow> fst (generate_image_core env (JObj d)) = []"
  unfolding validated_def generate_image_core_def dims_out_of_range_def
    steps_out_of_range_def
  by (auto simp: Let_def split: sum.splits bool.splits)

lemma core_not_dict:
  "(\<And>d. data \<noteq> JObj d) \<Longrightarrow> generate_image_core env data =
     (if TOGETHER_API_KEY env = [] then
       ([], Inr (JObj [(''error'', JStr ''Together AI API key not configured''),
                       (''message'',
                          JStr ''Please set TOGETHER_API_KEY environment variable'')], 500))
      else ([], Inl AttributeError))"
  unfolding generate_image_core_def
  by (cases data) auto

lemma core_posted:
  assumes "req \<in> set (fst (generate_image_core env data))"
  shows "\<exists>d. data = JObj d \<and> validated env d \<and> req = upstream_request env d"
proof (cases "\<exists>d. data = JObj d")
  case True
  then obtain d where d: "data = JObj d" by blast
  show ?thesis
  proof (cases "validated env d")
    case True
    with assms d show ?thesis by (simp add: core_validated)
  next
    case False
    with assms d show ?thesis by (simp add: core_not_validated)
  qed
next
  case False
  then have "\<And>d. data \<noteq> JObj d" by blast
  from core_not_dict [OF this] assms show ?thesis by (simp split: if_splits)
qed

lemma core_stages:
  assumes "TOGETHER_API_KEY env \<noteq> []"
    and "truthy (dict_get d ''prompt'' JNull)"
    and "model_in (dict_get d ''model'' (JStr (AVAILABLE_MODELS ! 0))) AVAILABLE_MODELS"
  shows "generate_image_core env (JObj d) =
    (case dims_out_of_range d of
       Inl ex \<Rightarrow> ([], Inl ex)
     | Inr True \<Rightarrow>
         ([], Inr (JObj [(''error'',
            JStr ''Width and height must be between 256 and 2048 pixels'')], 400))
     | Inr False \<Rightarrow>
         (case steps_out_of_range d of
            Inl ex \<Rightarrow> ([], Inl ex)
          | Inr True \<Rightarrow>
              ([], Inr (JObj [(''error'',
                 JStr ''Steps must be between 1 and 12 for Together AI models'')], 400))
          | Inr False \<Rightarrow>
              (case py_slice100 (dict_get d ''prompt'' JNull) of
                 Inl ex \<Rightarrow> ([], Inl ex)
               | Inr _ \<Rightarrow> ([upstream_request env d], after_post env d))))"
  unfolding after_post_def upstream_request_def payload_of_def
  using assms
  by (simp add: generate_image_core_def dims_out_of_range_def steps_out_of_range_def Let_def
      split: sum.splits bool.splits)

lemma dims_of_ints:
  assumes "dict_get d ''width'' (JInt 1024) = JInt w"
    and "dict_get d ''height'' (JInt 1024) = JInt h"
  shows "dims_out_of_range d = Inr (w < 256 \<or> w > 2048 \<or> h < 256 \<or> h > 2048)"
  using assms by (auto simp: dims_out_of_range_def py_or_def split: bool.splits)

lemma steps_of_int:
  assumes "dict_get d ''steps'' (JInt 12) = JInt s"
  shows "steps_out_of_range d = Inr (s < 1 \<or> s > 12)"
  using assms by (auto simp: steps_out_of_range_def py_or_def split: bool.splits)

lemma map_of_dict_set:
  "map_of (dict_set d k v) k' = (if k' = k then Some v else map_of d k')"
  by (induction d) auto

lemma payload_fixed_fields:
  "map_of (payload_of d) ''model'' = Some (dict_get d ''model'' (JStr (AVAILABLE_MODELS ! 0)))"
  "map_of (payload_of d) ''prompt'' = Some (dict_get d ''prompt'' JNull)"
  "map_of (payload_of d) ''width'' = Some (dict_get d ''width'' (JInt 1024))"
  "map_of (payload_of d) ''height'' = Some (dict_get d ''height'' (JInt 1024))"
  "map_of (payload_of d) ''steps'' = Some (dict_get d ''steps'' (JInt 12))"
  "map_of (payload_of d) ''n'' = Some (dict_get d ''n'' (JInt 1))"
  by (simp_all add: payload_of_def build_payload_def Let_def map_of_dict_set
      split: option.splits)

lemma payload_optional_fields:
  "map_of (payload_of d) ''negative_prompt'' =
     Some (case map_of d ''negative_prompt'' of
             None \<Rightarrow> JStr default_negative_prompt | Some v \<Rightarrow> v)"
  "map_of (payload_of d) ''guidance_scale'' =
     Some (case map_of d ''guidance_scale'' of
             None \<Rightarrow> JFloat (Finite (15 / 2)) | Some v \<Rightarrow> v)"
  "map_of (payload_of d) ''seed'' = map_of d ''seed''"
  by (simp_all add: payload_of_def build_payload_def Let_def map_of_dict_set
      split: option.splits)

lemma py_or_False: "py_or a b = Inr False \<longleftrightarrow> a = Inr False \<and> b = Inr False"
  by (auto simp: py_or_def split: sum.splits bool.splits)

lemma py_or_True: "py_or a b = Inr True \<longleftrightarrow> a = Inr True \<or> (a = Inr False \<and> b = Inr True)"
  by (auto simp: py_or_def split: sum.splits bool.splits)

lemma between_in_range:
  assumes "py_lt v lo = Inr False" and "py_gt v hi = Inr False" and "v \<noteq> JFloat NaN"
  shows "num_in_range lo hi v"
proof (cases v)
  case (JFloat f)
  with assms show ?thesis by (cases f) auto
qed (use assms in \<open>auto split: if_splits\<close>)

lemma py_len_has_len: "has_len v \<Longrightarrow> \<exists>k. py_len v = Inr k"
  by (cases v) auto

lemma spec_images_from_Nil: "spec_images_from i [] = []"
  by (simp add: spec_images_from_def map_filter_simps)

lemma spec_images_from_Cons:
  "spec_images_from i (e # es) =
     (case spec_image_result i e of
        None \<Rightarrow> spec_images_from (Suc i) es
      | Some img \<Rightarrow> img # spec_images_from (Suc i) es)"
  by (simp add: spec_images_from_def map_filter_simps split: option.splits)

lemma process_images_spec:
  "list_all entry_well_typed entries \<Longrightarrow>
     process_images i entries acc = Inr (acc @ spec_images_from i entries)"
proof (induction entries arbitrary: i acc)
  case Nil
  then show ?case by (simp add: spec_images_from_Nil)
next
  case (Cons e es)
  then have es: "list_all entry_well_typed es" and e: "entry_well_typed e" by simp_all
  from e obtain f where f: "e = JObj f" by (cases e) auto
  show ?case
  proof (cases "map_of f ''url''")
    case (Some u)
    with f Cons.IH [OF es] show ?thesis
      by (simp add: spec_images_from_Cons)
  next
    case None
    show ?thesis
    proof (cases "map_of f ''b64_json''")
      case inner: None
      with None f Cons.IH [OF es] show ?thesis
        by (simp add: spec_images_from_Cons)
    next
      case (Some b)
      with None e f have "has_len b" by simp
      then obtain k where "py_len b = Inr k" using py_len_has_len by blast
      with None Some f Cons.IH [OF es] show ?thesis
        by (simp add: spec_images_from_Cons)
    qed
  qed
qed

lemma process_images_well_typed:
  "process_images i entries acc = Inr imgs \<Longrightarrow> list_all entry_well_typed entries"
proof (induction entries arbitrary: i acc)
  case Nil
  then show ?case by simp
next
  case (Cons e es)
  from Cons.prems obtain f where f: "e = JObj f" by (cases e) auto
  show ?case
  proof (cases "map_of f ''url''")
    case (Some u)
    with f Cons show ?thesis by auto
  next
    case None
    show ?thesis
    proof (cases "map_of f ''b64_json''")
      case inner: None
      with None f Cons show ?thesis by auto
    next
      case (Some b)
      with None f Cons.prems have "has_len b" by (cases b) auto
      moreover from None Some f Cons.prems have "list_all entry_well_typed es"
        by (auto split: sum.splits dest: Cons.IH)
      ultimately show ?thesis using None Some f by simp
    qed
  qed
qed

lemma after_post_raised:
  "requests_post env (upstream_request env d) = Inl ex \<Longrightarrow>
     after_post env d = except_requests (Inl ex)"
  by (simp add: after_post_def)

lemma after_post_not_200:
  "requests_post env (upstream_request env d) = Inr resp \<Longrightarrow> status_code resp \<noteq> 200 \<Longrightarrow>
     after_post env d =
       Inr (JObj [(''error'',
              JStr (''Together AI API error: '' @ str_int (status_code resp)
                    @ (if resp_text resp \<noteq> [] then '' - '' @ resp_text resp else [])))],
            status_code resp)"
  by (simp add: after_post_def process_response_def Let_def)

lemma after_post_200:
  "requests_post env (upstream_request env d) = Inr resp \<Longrightarrow> status_code resp = 200 \<Longrightarrow>
     resp_json resp = Inr result \<Longrightarrow>
     after_post env d =
       (case has_data result of
          Inl ex \<Rightarrow> except_requests (Inl ex)
        | Inr False \<Rightarrow> Inr (JObj [(''error'', JStr ''No images generated'')], 500)
        | Inr True \<Rightarrow>
            (case process_images 0 (py_iter (result_data result)) [] of
               Inl ex \<Rightarrow> except_requests (Inl ex)
             | Inr images_data \<Rightarrow> Inr (success_body env d images_data, 200)))"
  by (simp add: after_post_def process_response_def success_body_def
      split: sum.splits bool.splits)

lemma posted_validated:
  assumes "fst (generate_image_core env data) = [req]"
  obtains d where "data = JObj d" and "validated env d" and "req = upstream_request env d"
    and "snd (generate_image_core env data) = after_post env d"
proof -
  from assms have "req \<in> set (fst (generate_image_core env data))" by simp
  from core_posted [OF this] obtain d where d: "data = JObj d" "validated env d"
    "req = upstream_request env d" by blast
  then have "snd (generate_image_core env data) = after_post env d"
    by (simp add: core_validated)
  with d show ?thesis using that by blast
qed

lemma image_result_at_iff:
  "image_result_at img j \<longleftrightarrow>
     (\<exists>v. img = JObj [(''url'', v), (''index'', JInt (int j))] \<or>
          img = JObj [(''b64_json'', v), (''index'', JInt (int j))])"
  by (cases img) (auto simp: image_result_at_def dict_get_def)

lemma spec_image_result_at:
  "spec_image_result i e = Some img \<Longrightarrow> image_result_at img i"
  by (cases e) (auto simp: image_result_at_def dict_get_def split: option.splits)

lemma spec_images_shape:
  "\<exists>idx. list_all2 image_result_at (spec_images_from i entries) idx \<and>
         sorted_wrt (<) idx \<and> (\<forall>j \<in> set idx. i \<le> j \<and> j < i + length entries) \<and>
         length (spec_images_from i entries) \<le> length entries"
proof (induction entries arbitrary: i)
  case Nil
  then show ?case by (simp add: spec_images_from_Nil)
next
  case (Cons e es)
  from Cons.IH [of "Suc i"] obtain idx where
    idx: "list_all2 image_result_at (spec_images_from (Suc i) es) idx"
      "sorted_wrt (<) idx" "\<forall>j \<in> set idx. Suc i \<le> j \<and> j < Suc i + length es"
      "length (spec_images_from (Suc i) es) \<le> length es"
    by blast
  show ?case
  proof (cases "spec_image_result i e")
    case None
    with idx have "list_all2 image_result_at (spec_images_from i (e # es)) idx \<and>
         sorted_wrt (<) idx \<and> (\<forall>j \<in> set idx. i \<le> j \<and> j < i + length (e # es)) \<and>
         length (spec_images_from i (e # es)) \<le> length (e # es)"
      by (auto simp: spec_images_from_Cons)
    then show ?thesis by blast
  next
    case (Some img)
    then have "image_result_at img i" by (rule spec_image_result_at)
    with Some idx have "list_all2 image_result_at (spec_images_from i (e # es)) (i # idx) \<and>
         sorted_wrt (<) (i # idx) \<and>
         (\<forall>j \<in> set (i # idx). i \<le> j \<and> j < i + length (e # es)) \<and>
         length (spec_images_from i (e # es)) \<le> length (e # es)"
      by (auto simp: spec_images_from_Cons)
    then show ?thesis by blast
  qed
qed

lemma except_requests_not_200: "except_requests (Inl ex) \<noteq> Inr (r, 200)"
  by (cases ex) auto

lemma core_200_validated:
  assumes "snd (generate_image_core env data) = Inr (result, 200)"
  obtains d where "data = JObj d" and "validated env d"
proof -
  have "\<exists>d. data = JObj d"
  proof (rule ccontr)
    assume "\<not> (\<exists>d. data = JObj d)"
    then have "\<And>d. data \<noteq> JObj d" by blast
    from core_not_dict [OF this, of env] assms show False by (simp split: if_splits)
  qed
  then obtain d where d: "data = JObj d" by blast
  have "validated env d"
  proof (rule ccontr)
    assume "\<not> validated env d"
    with assms d show False
      unfolding validated_def generate_image_core_def dims_out_of_range_def
        steps_out_of_range_def
      by (auto simp: Let_def split: sum.splits bool.splits if_splits)
  qed
  with d show ?thesis using that by blast
qed

lemma after_post_200_inv:
  assumes "after_post env d = Inr (result, 200)"
  obtains resp body images where "requests_post env (upstream_request env d) = Inr resp"
    and "status_code resp = 200" and "resp_json resp = Inr body"
    and "has_data body = Inr True"
    and "process_images 0 (py_iter (result_data body)) [] = Inr images"
    and "result = success_body env d images"
proof -
  from assms obtain resp where resp: "requests_post env (upstream_request env d) = Inr resp"
    by (cases "requests_post env (upstream_request env d)")
       (auto simp: after_post_raised except_requests_not_200)
  have st: "status_code resp = 200"
  proof (rule ccontr)
    assume ne: "status_code resp \<noteq> 200"
    from after_post_not_200 [OF resp ne] assms ne show False by simp
  qed
  from assms resp st obtain body where body: "resp_json resp = Inr body"
    by (cases "resp_json resp")
       (auto simp: after_post_def process_response_def except_requests_not_200)
  note ap = after_post_200 [OF resp st body]
  from assms have hd: "has_data body = Inr True"
    unfolding ap
    by (auto simp: except_requests_not_200 split: sum.splits bool.splits)
  with assms obtain images where
    im: "process_images 0 (py_iter (result_data body)) [] = Inr images"
    unfolding ap
    by (auto simp: except_requests_not_200 split: sum.splits)
  with assms hd have "result = success_body env d images"
    unfolding ap by simp
  with resp st body hd im show ?thesis using that by blast
qed

lemma iterated_data_is_list:
  assumes "has_data body = Inr True"
    and "process_images 0 (py_iter (result_data body)) [] = Inr images"
  obtains b entries where "body = JObj b" and "map_of b ''data'' = Some (JList entries)"
    and "entries \<noteq> []" and "py_iter (result_data body) = entries"
proof -
  from assms(1) obtain b where b: "body = JObj b"
    by (cases body) (auto split: if_splits)
  with assms(1) obtain v k where v: "map_of b ''data'' = Some v" "py_len v = Inr k" "k > 0"
    by (auto split: option.splits sum.splits)
  from v b have rd: "result_data body = v" by (simp add: dict_get_def)
  from v(2,3) assms(2) obtain entries where "v = JList entries" "entries \<noteq> []"
    unfolding rd
    by (cases v) (auto simp: neq_Nil_conv)
  with b v rd show ?thesis using that by simp
qed

lemma demo_validated:
  "map_of d ''prompt'' = Some (JStr ''a cat'') \<Longrightarrow> map_of d ''model'' = None \<Longrightarrow>
   map_of d ''width'' = None \<Longrightarrow> map_of d ''height'' = None \<Longrightarrow>
   map_of d ''steps'' = None \<Longrightarrow> validated (demo_env ''key'' outcome) d"
  by (simp add: validated_def demo_env_def dict_get_def AVAILABLE_MODELS_def
      dims_out_of_range_def steps_out_of_range_def py_or_def)

lemma demo_posted:
  "map_of d ''prompt'' = Some (JStr ''a cat'') \<Longrightarrow> map_of d ''model'' = None \<Longrightarrow>
   map_of d ''width'' = None \<Longrightarrow> map_of d ''height'' = None \<Longrightarrow>
   map_of d ''steps'' = None \<Longrightarrow>
   fst (generate_image_core (demo_env ''key'' outcome) (JObj d)) =
     [upstream_request (demo_env ''key'' outcome) d]"
  by (simp add: core_validated demo_validated)

lemma demo_requests_post: "requests_post (demo_env key outcome) req = outcome"
  by (simp add: demo_env_def)

lemma str_int_429: "str_int 429 = ''429''"
  by code_simp

lemma spec_images_demo:
  "spec_images demo_entries =
     [JObj [(''url'', JStr ''x''), (''index'', JInt 0)],
      JObj [(''b64_json'', JStr ''y''), (''index'', JInt 1)],
      JObj [(''url'', JStr ''u''), (''index'', JInt 3)]]"
  by (simp add: spec_images_def spec_images_from_Cons spec_images_from_Nil demo_entries_def)

lemma demo_success:
  "snd (generate_image_core
          (demo_env ''key'' (Inr (demo_response (JObj [(''data'', JList demo_entries)]))))
          (JObj d)) =
     Inr (success_body
            (demo_env ''key'' (Inr (demo_response (JObj [(''data'', JList demo_entries)]))))
            d (spec_images demo_entries), 200)"
  if "map_of d ''prompt'' = Some (JStr ''a cat'')" "map_of d ''model'' = None"
    "map_of d ''width'' = None" "map_of d ''height'' = None" "map_of d ''steps'' = None"
proof -
  let ?b = "[(''data'', JList demo_entries)]"
  let ?env = "demo_env ''key'' (Inr (demo_response (JObj ?b)))"
  have v: "validated ?env d" using that by (rule demo_validated)
  have r: "requests_post ?env (upstream_request ?env d) = Inr (demo_response (JObj ?b))"
    "status_code (demo_response (JObj ?b)) = 200"
    "resp_json (demo_response (JObj ?b)) = Inr (JObj ?b)"
    by (simp_all add: demo_requests_post demo_response_def)
  have "list_all entry_well_typed demo_entries" by (simp add: demo_entries_def)
  from process_images_spec [OF this, of 0 "[]"]
  have "process_images 0 demo_entries [] = Inr (spec_images demo_entries)"
    by (simp add: spec_images_def)
  moreover have "has_data (JObj ?b) = Inr True" by (simp add: demo_entries_def)
  moreover have "py_iter (result_data (JObj ?b)) = demo_entries" by (simp add: dict_get_def)
  ultimately show ?thesis
    by (simp add: core_validated [OF v] after_post_200 [OF r])
qed

lemma core_simple_body_validated:
  "TOGETHER_API_KEY env \<noteq> [] \<Longrightarrow>
     validated env [(''prompt'', JStr ''a cat''), (''model'', JStr (AVAILABLE_MODELS ! 0)),
                    (''width'', JInt 1024), (''height'', JInt 1024), (''steps'', JInt 12),
                    (''n'', JInt 1)]"
  by (simp add: validated_def dict_get_def AVAILABLE_MODELS_def
      dims_out_of_range_def steps_out_of_range_def py_or_def)

lemma sublist_inside: "sublist x ys \<Longrightarrow> sublist x (ps @ ys @ ss)"
proof -
  assume "sublist x ys"
  then obtain a b where "ys = a @ x @ b" by (auto simp: sublist_def)
  then have "ps @ ys @ ss = (ps @ a) @ x @ (b @ ss)" by simp
  then show ?thesis unfolding sublist_def by blast
qed

lemma sublist_join_comma: "x \<in> set xs \<Longrightarrow> sublist x (join_comma xs)"
proof (induction xs rule: join_comma.induct)
  case 1
  then show ?case by simp
next
  case (2 s)
  then show ?case by simp
next
  case (3 s t ss)
  show ?case
  proof (cases "x = s")
    case True
    then show ?thesis by simp
  next
    case False
    with 3 have "sublist x (join_comma (t # ss))" by simp
    then have "sublist x ((s @ '', '') @ join_comma (t # ss) @ [])"
      by (rule sublist_inside)
    then show ?thesis by simp
  qed
qed

lemma sublist_repr_list: "m \<in> set ms \<Longrightarrow> sublist m (pre @ py_repr_list ms)"
proof -
  assume "m \<in> set ms"
  then have "py_repr_str m \<in> set (map py_repr_str ms)" by simp
  then have "sublist (py_repr_str m) (join_comma (map py_repr_str ms))"
    by (rule sublist_join_comma)
  moreover have "sublist m (py_repr_str m)"
    unfolding py_repr_str_def by (rule sublist_appendI)
  ultimately have "sublist m (join_comma (map py_repr_str ms))"
    by (rule sublist_order.order_trans [rotated])
  then have "sublist m ((pre @ ''['') @ join_comma (map py_repr_str ms) @ '']'')"
    by (rule sublist_inside)
  then show ?thesis
    by (simp add: py_repr_list_def)
qed

section \<open>The order of the validator's checks\<close>

text \<open>
  Claim C3. The checks are applied in the order credential, prompt, model, dimensions,
  steps, and the first one that fails alone decides the result. Without a credential
  the result is the 500 configuration error, whatever the request is. With a
  credential and a missing or empty (falsy) prompt it is 400 \<^verbatim>\<open>Prompt is required\<close>,
  whatever the other fields hold. With a prompt and a model outside the enumeration it
  is 400 with a message that is the repr of the whole list, so that every valid model
  name occurs in it, whatever width, height and steps hold. The dimension error needs
  the three earlier checks to pass and does not look at steps; the steps error needs the
  four earlier checks to pass.
\<close>

theorem validator_check_order:
  "(TOGETHER_API_KEY env = [] \<longrightarrow>
      generate_image_core env data =
        ([], Inr (JObj [(''error'', JStr ''Together AI API key not configured''),
                        (''message'',
                           JStr ''Please set TOGETHER_API_KEY environment variable'')], 500)))
   \<and> (TOGETHER_API_KEY env \<noteq> [] \<and> \<not> truthy (dict_get d ''prompt'' JNull) \<longrightarrow>
      generate_image_core env (JObj d) =
        ([], Inr (JObj [(''error'', JStr ''Prompt is required'')], 400)))
   \<and> (TOGETHER_API_KEY env \<noteq> [] \<and> truthy (dict_get d ''prompt'' JNull) \<and>
        \<not> model_in (dict_get d ''model'' (JStr (AVAILABLE_MODELS ! 0))) AVAILABLE_MODELS \<longrightarrow>
      generate_image_core env (JObj d) =
        ([], Inr (JObj [(''error'',
              JStr (''Invalid model. Available models: '' @ py_repr_list AVAILABLE_MODELS))],
            400))
      \<and> (\<forall>m \<in> set AVAILABLE_MODELS.
            sublist m (''Invalid model. Available models: '' @ py_repr_list AVAILABLE_MODELS)))
   \<and> (TOGETHER_API_KEY env \<noteq> [] \<and> truthy (dict_get d ''prompt'' JNull) \<and>
        model_in (dict_get d ''model'' (JStr (AVAILABLE_MODELS ! 0))) AVAILABLE_MODELS \<and>
        dims_out_of_range d = Inr True \<longrightarrow>
      generate_image_core env (JObj d) =
        ([], Inr (JObj [(''error'',
              JStr ''Width and height must be between 256 and 2048 pixels'')], 400)))
   \<and> (TOGETHER_API_KEY env \<noteq> [] \<and> truthy (dict_get d ''prompt'' JNull) \<and>
        model_in (dict_get d ''model'' (JStr (AVAILABLE_MODELS ! 0))) AVAILABLE_MODELS \<and>
        dims_out_of_range d = Inr False \<and> steps_out_of_range d = Inr True \<longrightarrow>
      generate_image_core env (JObj d) =
        ([], Inr (JObj [(''error'',
              JStr ''Steps must be between 1 and 12 for Together AI models'')], 400)))"
proof (intro conjI impI ballI)
  assume "TOGETHER_API_KEY env = []"
  then show "generate_image_core env data =
        ([], Inr (JObj [(''error'', JStr ''Together AI API key not configured''),
                        (''message'',
                           JStr ''Please set TOGETHER_API_KEY environment variable'')], 500))"
    by (simp add: generate_image_core_def)
next
  assume "TOGETHER_API_KEY env \<noteq> [] \<and> \<not> truthy (dict_get d ''prompt'' JNull)"
  then show "generate_image_core env (JObj d) =
        ([], Inr (JObj [(''error'', JStr ''Prompt is required'')], 400))"
    by (simp add: generate_image_core_def)
next
  assume "TOGETHER_API_KEY env \<noteq> [] \<and> truthy (dict_get d ''prompt'' JNull) \<and>
        \<not> model_in (dict_get d ''model'' (JStr (AVAILABLE_MODELS ! 0))) AVAILABLE_MODELS"
  then show "generate_image_core env (JObj d) =
        ([], Inr (JObj [(''error'',
              JStr (''Invalid model. Available models: '' @ py_repr_list AVAILABLE_MODELS))],
            400))"
    by (simp add: generate_image_core_def Let_def)
next
  fix m assume "m \<in> set AVAILABLE_MODELS"
  then show "sublist m (''Invalid model. Available models: '' @ py_repr_list AVAILABLE_MODELS)"
    by (rule sublist_repr_list)
next
  assume "TOGETHER_API_KEY env \<noteq> [] \<and> truthy (dict_get d ''prompt'' JNull) \<and>
        model_in (dict_get d ''model'' (JStr (AVAILABLE_MODELS ! 0))) AVAILABLE_MODELS \<and>
        dims_out_of_range d = Inr True"
  then show "generate_image_core env (JObj d) =
        ([], Inr (JObj [(''error'',
              JStr ''Width and height must be between 256 and 2048 pixels'')], 400))"
    by (simp add: generate_image_core_def Let_def dims_out_of_range_def)
next
  assume "TOGETHER_API_KEY env \<noteq> [] \<and> truthy (dict_get d ''prompt'' JNull) \<and>
        model_in (dict_get d ''model'' (JStr (AVAILABLE_MODELS ! 0))) AVAILABLE_MODELS \<and>
        dims_out_of_range d = Inr False \<and> steps_out_of_range d = Inr True"
  then show "generate_image_core env (JObj d) =
        ([], Inr (JObj [(''error'',
              JStr ''Steps must be between 1 and 12 for Together AI models'')], 400))"
    by (simp add: generate_image_core_def Let_def dims_out_of_range_def steps_out_of_range_def)
qed

theorem validator_check_order_witness:
  "generate_image_core (demo_env [] (Inl Timeout)) JNull =
     ([], Inr (JObj [(''error'', JStr ''Together AI API key not configured''),
                     (''message'',
                        JStr ''Please set TOGETHER_API_KEY environment variable'')], 500))
   \<and> generate_image_core (demo_env ''key'' (Inl Timeout))
         (JObj [(''prompt'', JStr []), (''model'', JInt 3), (''width'', JNull)]) =
       ([], Inr (JObj [(''error'', JStr ''Prompt is required'')], 400))
   \<and> generate_image_core (demo_env ''key'' (Inl Timeout))
         (JObj [(''prompt'', JStr ''a cat''), (''model'', JStr ''invalid-model-name''),
                (''width'', JNull), (''steps'', JInt 99)]) =
       ([], Inr (JObj [(''error'',
              JStr (''Invalid model. Available models: '' @ py_repr_list AVAILABLE_MODELS))],
            400))
   \<and> sublist ''stabilityai/stable-diffusion-2-1''
         (''Invalid model. Available models: '' @ py_repr_list AVAILABLE_MODELS)
   \<and> generate_image_core (demo_env ''key'' (Inl Timeout))
         (JObj [(''prompt'', JStr ''a cat''), (''width'', JInt 100), (''height'', JInt 3000),
                (''steps'', JStr ''many'')]) =
       ([], Inr (JObj [(''error'',
              JStr ''Width and height must be between 256 and 2048 pixels'')], 400))
   \<and> generate_image_core (demo_env ''key'' (Inl Timeout))
         (JObj [(''prompt'', JStr ''a cat''), (''steps'', JInt 20)]) =
       ([], Inr (JObj [(''error'',
              JStr ''Steps must be between 1 and 12 for Together AI models'')], 400))"
  using validator_check_order [of "demo_env [] (Inl Timeout)" JNull "[]"]
    validator_check_order [of "demo_env ''key'' (Inl Timeout)" JNull
      "[(''prompt'', JStr []), (''model'', JInt 3), (''width'', JNull)]"]
    validator_check_order [of "demo_env ''key'' (Inl Timeout)" JNull
      "[(''prompt'', JStr ''a cat''), (''model'', JStr ''invalid-model-name''),
        (''width'', JNull), (''steps'', JInt 99)]"]
    validator_check_order [of "demo_env ''key'' (Inl Timeout)" JNull
      "[(''prompt'', JStr ''a cat''), (''width'', JInt 100), (''height'', JInt 3000),
        (''steps'', JStr ''many'')]"]
    validator_check_order [of "demo_env ''key'' (Inl Timeout)" JNull
      "[(''prompt'', JStr ''a cat''), (''steps'', JInt 20)]"]
  by (simp add: demo_env_def dict_get_def dims_out_of_range_def steps_out_of_range_def
      py_or_def AVAILABLE_MODELS_def)

section \<open>The bounds on width, height and steps\<close>

text \<open>
  Claim C5. Take a request that passes the credential, prompt and model checks and whose
  width and height, after the default 1024 for an omitted one, are the integers \<open>w\<close>
  and \<open>h\<close>. It is rejected with the 400 dimension error exactly when \<open>w\<close> or \<open>h\<close> is
  below 256 or above 2048, so 256 and 2048 are accepted. When both are in range and
  steps, after the default 12, is the integer \<open>s\<close>, it is rejected with the 400 steps
  error exactly when \<open>s\<close> is below 1 or above 12, so 1 and 12 are accepted.
\<close>

theorem dimension_and_step_bounds:
  assumes "TOGETHER_API_KEY env \<noteq> []"
    and "truthy (dict_get d ''prompt'' JNull)"
    and "model_in (dict_get d ''model'' (JStr (AVAILABLE_MODELS ! 0))) AVAILABLE_MODELS"
    and "dict_get d ''width'' (JInt 1024) = JInt w"
    and "dict_get d ''height'' (JInt 1024) = JInt h"
  shows "(generate_image_core env (JObj d) =
            ([], Inr (JObj [(''error'',
                  JStr ''Width and height must be between 256 and 2048 pixels'')], 400))
          \<longleftrightarrow> w < 256 \<or> w > 2048 \<or> h < 256 \<or> h > 2048)
       \<and> (\<forall>s. 256 \<le> w \<and> w \<le> 2048 \<and> 256 \<le> h \<and> h \<le> 2048 \<and>
               dict_get d ''steps'' (JInt 12) = JInt s \<longrightarrow>
              (generate_image_core env (JObj d) =
                 ([], Inr (JObj [(''error'',
                       JStr ''Steps must be between 1 and 12 for Together AI models'')], 400))
               \<longleftrightarrow> s < 1 \<or> s > 12))"
proof (intro conjI allI impI)
  note core = core_stages [OF assms(1-3)]
  note dims = dims_of_ints [OF assms(4,5)]
  show "generate_image_core env (JObj d) =
            ([], Inr (JObj [(''error'',
                  JStr ''Width and height must be between 256 and 2048 pixels'')], 400))
          \<longleftrightarrow> w < 256 \<or> w > 2048 \<or> h < 256 \<or> h > 2048"
  proof (cases "w < 256 \<or> w > 2048 \<or> h < 256 \<or> h > 2048")
    case True
    then have "dims_out_of_range d = Inr True" using dims by simp
    with True show ?thesis by (simp add: core)
  next
    case False
    then have "dims_out_of_range d = Inr False" using dims by simp
    with False show ?thesis
      by (simp add: core split: sum.splits bool.splits)
  qed
  fix s
  assume h: "256 \<le> w \<and> w \<le> 2048 \<and> 256 \<le> h \<and> h \<le> 2048 \<and>
               dict_get d ''steps'' (JInt 12) = JInt s"
  then have d: "dims_out_of_range d = Inr False" using dims by simp
  from h have st: "steps_out_of_range d = Inr (s < 1 \<or> s > 12)"
    by (simp add: steps_of_int)
  show "generate_image_core env (JObj d) =
                 ([], Inr (JObj [(''error'',
                       JStr ''Steps must be between 1 and 12 for Together AI models'')], 400))
               \<longleftrightarrow> s < 1 \<or> s > 12"
  proof (cases "s < 1 \<or> s > 12")
    case True
    with d st show ?thesis by (simp add: core)
  next
    case False
    with d st show ?thesis by (simp add: core split: sum.splits)
  qed
qed

text \<open>
  The instances: width 256 with the default height is not rejected, height 2049 is;
  steps 1 is not rejected, steps 13 is.
\<close>

theorem dimension_and_step_bounds_witness:
  "(generate_image_core (demo_env ''key'' (Inl Timeout))
        (JObj [(''prompt'', JStr ''a cat''), (''width'', JInt 256)]) =
      ([], Inr (JObj [(''error'',
            JStr ''Width and height must be between 256 and 2048 pixels'')], 400))
    \<longleftrightarrow> (256::int) < 256 \<or> (256::int) > 2048 \<or> (1024::int) < 256 \<or> (1024::int) > 2048)
   \<and> (generate_image_core (demo_env ''key'' (Inl Timeout))
        (JObj [(''prompt'', JStr ''a cat''), (''width'', JInt 2048), (''height'', JInt 2049)]) =
      ([], Inr (JObj [(''error'',
            JStr ''Width and height must be between 256 and 2048 pixels'')], 400))
    \<longleftrightarrow> (2048::int) < 256 \<or> (2048::int) > 2048 \<or> (2049::int) < 256 \<or> (2049::int) > 2048)
   \<and> (generate_image_core (demo_env ''key'' (Inl Timeout))
        (JObj [(''prompt'', JStr ''a cat''), (''width'', JInt 256), (''steps'', JInt 1)]) =
      ([], Inr (JObj [(''error'',
            JStr ''Steps must be between 1 and 12 for Together AI models'')], 400))
    \<longleftrightarrow> (1::int) < 1 \<or> (1::int) > 12)
   \<and> (generate_image_core (demo_env ''key'' (Inl Timeout))
        (JObj [(''prompt'', JStr ''a cat''), (''height'', JInt 2048), (''steps'', JInt 13)]) =
      ([], Inr (JObj [(''error'',
            JStr ''Steps must be between 1 and 12 for Together AI models'')], 400))
    \<longleftrightarrow> (13::int) < 1 \<or> (13::int) > 12)"
proof -
  have key: "TOGETHER_API_KEY (demo_env ''key'' (Inl Timeout)) \<noteq> []"
    by (simp add: demo_env_def)
  let ?d1 = "[(''prompt'', JStr ''a cat''), (''width'', JInt 256)]"
  let ?d2 = "[(''prompt'', JStr ''a cat''), (''width'', JInt 2048), (''height'', JInt 2049)]"
  let ?d3 = "[(''prompt'', JStr ''a cat''), (''width'', JInt 256), (''steps'', JInt 1)]"
  let ?d4 = "[(''prompt'', JStr ''a cat''), (''height'', JInt 2048), (''steps'', JInt 13)]"
  have 1: "truthy (dict_get ?d1 ''prompt'' JNull)"
      "model_in (dict_get ?d1 ''model'' (JStr (AVAILABLE_MODELS ! 0))) AVAILABLE_MODELS"
      "dict_get ?d1 ''width'' (JInt 1024) = JInt 256"
      "dict_get ?d1 ''height'' (JInt 1024) = JInt 1024"
    by (simp_all add: dict_get_def AVAILABLE_MODELS_def)
  have 2: "truthy (dict_get ?d2 ''prompt'' JNull)"
      "model_in (dict_get ?d2 ''model'' (JStr (AVAILABLE_MODELS ! 0))) AVAILABLE_MODELS"
      "dict_get ?d2 ''width'' (JInt 1024) = JInt 2048"
      "dict_get ?d2 ''height'' (JInt 1024) = JInt 2049"
    by (simp_all add: dict_get_def AVAILABLE_MODELS_def)
  have 3: "truthy (dict_get ?d3 ''prompt'' JNull)"
      "model_in (dict_get ?d3 ''model'' (JStr (AVAILABLE_MODELS ! 0))) AVAILABLE_MODELS"
      "dict_get ?d3 ''width'' (JInt 1024) = JInt 256"
      "dict_get ?d3 ''height'' (JInt 1024) = JInt 1024"
      "dict_get ?d3 ''steps'' (JInt 12) = JInt 1"
    by (simp_all add: dict_get_def AVAILABLE_MODELS_def)
  have 4: "truthy (dict_get ?d4 ''prompt'' JNull)"
      "model_in (dict_get ?d4 ''model'' (JStr (AVAILABLE_MODELS ! 0))) AVAILABLE_MODELS"
      "dict_get ?d4 ''width'' (JInt 1024) = JInt 1024"
      "dict_get ?d4 ''height'' (JInt 1024) = JInt 2048"
      "dict_get ?d4 ''steps'' (JInt 12) = JInt 13"
    by (simp_all add: dict_get_def AVAILABLE_MODELS_def)
  from dimension_and_step_bounds [OF key 1] dimension_and_step_bounds [OF key 2]
    dimension_and_step_bounds [OF key 3(1-4)] 3(5)
    dimension_and_step_bounds [OF key 4(1-4)] 4(5)
  show ?thesis by simp
qed

section \<open>What is sent upstream\<close>

text \<open>
  Whenever the core posts a request, the payload's model is one of \<open>AVAILABLE_MODELS\<close>,
  and the payload's width, height and steps are numbers in \<open>[256, 2048]\<close>,
  \<open>[256, 2048]\<close> and \<open>[1, 12]\<close>, provided none of the three is the float NaN. Every
  other value outside the ranges, of any type, stops the core before the call.
\<close>

lemma payload_within_ranges:
  assumes "req \<in> set (fst (generate_image_core env (JObj d)))"
    and "dict_get d ''width'' (JInt 1024) \<noteq> JFloat NaN"
    and "dict_get d ''height'' (JInt 1024) \<noteq> JFloat NaN"
    and "dict_get d ''steps'' (JInt 12) \<noteq> JFloat NaN"
  shows "(\<exists>m. map_of (post_json req) ''model'' = Some (JStr m) \<and> m \<in> set AVAILABLE_MODELS)
       \<and> (\<exists>w. map_of (post_json req) ''width'' = Some w \<and> num_in_range 256 2048 w)
       \<and> (\<exists>h. map_of (post_json req) ''height'' = Some h \<and> num_in_range 256 2048 h)
       \<and> (\<exists>s. map_of (post_json req) ''steps'' = Some s \<and> num_in_range 1 12 s)"
proof -
  from core_posted [OF assms(1)]
  have v: "validated env d" and req: "req = upstream_request env d" by auto
  have pj: "post_json req = payload_of d" by (simp add: req upstream_request_def)
  from v have m: "model_in (dict_get d ''model'' (JStr (AVAILABLE_MODELS ! 0))) AVAILABLE_MODELS"
    and dims: "dims_out_of_range d = Inr False" and st: "steps_out_of_range d = Inr False"
    by (simp_all add: validated_def)
  from m obtain name where name: "dict_get d ''model'' (JStr (AVAILABLE_MODELS ! 0)) = JStr name"
    "name \<in> set AVAILABLE_MODELS"
    by (cases "dict_get d ''model'' (JStr (AVAILABLE_MODELS ! 0))") auto
  from dims have "num_in_range 256 2048 (dict_get d ''width'' (JInt 1024))"
    "num_in_range 256 2048 (dict_get d ''height'' (JInt 1024))"
    using assms(2,3) by (auto simp: dims_out_of_range_def py_or_False intro: between_in_range)
  moreover from st have "num_in_range 1 12 (dict_get d ''steps'' (JInt 12))"
    using assms(4) by (auto simp: steps_out_of_range_def py_or_False intro: between_in_range)
  ultimately show ?thesis using name by (simp add: pj payload_fixed_fields)
qed

lemma payload_within_ranges_instance:
  "(\<exists>m. map_of (post_json (upstream_request (demo_env ''key'' (Inl Timeout))
            [(''prompt'', JStr ''a cat''), (''width'', JInt 512), (''steps'', JInt 4)]))
          ''model'' = Some (JStr m) \<and> m \<in> set AVAILABLE_MODELS)
   \<and> (\<exists>w. map_of (post_json (upstream_request (demo_env ''key'' (Inl Timeout))
            [(''prompt'', JStr ''a cat''), (''width'', JInt 512), (''steps'', JInt 4)]))
          ''width'' = Some w \<and> num_in_range 256 2048 w)
   \<and> (\<exists>h. map_of (post_json (upstream_request (demo_env ''key'' (Inl Timeout))
            [(''prompt'', JStr ''a cat''), (''width'', JInt 512), (''steps'', JInt 4)]))
          ''height'' = Some h \<and> num_in_range 256 2048 h)
   \<and> (\<exists>s. map_of (post_json (upstream_request (demo_env ''key'' (Inl Timeout))
            [(''prompt'', JStr ''a cat''), (''width'', JInt 512), (''steps'', JInt 4)]))
          ''steps'' = Some s \<and> num_in_range 1 12 s)"
proof -
  let ?env = "demo_env ''key'' (Inl Timeout)"
  let ?d = "[(''prompt'', JStr ''a cat''), (''width'', JInt 512), (''steps'', JInt 4)]"
  have "validated ?env ?d"
    by (simp add: validated_def demo_env_def dict_get_def AVAILABLE_MODELS_def
        dims_out_of_range_def steps_out_of_range_def py_or_def)
  then have "upstream_request ?env ?d \<in> set (fst (generate_image_core ?env (JObj ?d)))"
    by (simp add: core_validated)
  moreover have "dict_get ?d ''width'' (JInt 1024) \<noteq> JFloat NaN"
    "dict_get ?d ''height'' (JInt 1024) \<noteq> JFloat NaN"
    "dict_get ?d ''steps'' (JInt 12) \<noteq> JFloat NaN"
    by (simp_all add: dict_get_def)
  ultimately show ?thesis by (rule payload_within_ranges)
qed




section \<open>The outcome of the upstream call\<close>

text \<open>
  Claim C7. When the core has posted its request, what the call does decides the result:
  a \<open>Timeout\<close> gives status 408; a response whose status is not 200 gives that same
  status, with the message \<^verbatim>\<open>Together AI API error: <status>\<close> to which the response
  text, when there is one, is appended after \<^verbatim>\<open> - \<close>; any other requests exception
  gives status 500 with its text in the message.
\<close>

theorem upstream_outcome_mapping:
  assumes "fst (generate_image_core env data) = [req]"
  shows "(requests_post env req = Inl Timeout \<longrightarrow>
            snd (generate_image_core env data) =
              Inr (JObj [(''error'',
                     JStr ''Request timeout - image generation took too long'')], 408))
       \<and> (\<forall>resp. requests_post env req = Inr resp \<and> status_code resp \<noteq> 200 \<longrightarrow>
            snd (generate_image_core env data) =
              Inr (JObj [(''error'',
                     JStr (''Together AI API error: '' @ str_int (status_code resp)
                           @ (if resp_text resp \<noteq> [] then '' - '' @ resp_text resp
                              else [])))],
                   status_code resp))
       \<and> (\<forall>m. requests_post env req = Inl (RequestException m) \<longrightarrow>
            snd (generate_image_core env data) =
              Inr (JObj [(''error'', JStr (''Request failed: '' @ m))], 500))"
proof -
  from assms obtain d where req: "req = upstream_request env d"
    and snd: "snd (generate_image_core env data) = after_post env d"
    by (rule posted_validated)
  show ?thesis
    unfolding snd req
    by (auto simp: after_post_raised after_post_not_200)
qed

theorem upstream_outcome_mapping_witness:
  "snd (generate_image_core (demo_env ''key'' (Inl Timeout)) (JObj [(''prompt'', JStr ''a cat'')])) =
     Inr (JObj [(''error'', JStr ''Request timeout - image generation took too long'')], 408)
   \<and> snd (generate_image_core
           (demo_env ''key'' (Inr \<lparr>status_code = 429, resp_text = ''rate limited'',
                                     resp_json = Inl (OtherException ''no JSON'')\<rparr>))
           (JObj [(''prompt'', JStr ''a cat'')])) =
     Inr (JObj [(''error'', JStr ''Together AI API error: 429 - rate limited'')], 429)
   \<and> snd (generate_image_core (demo_env ''key'' (Inl (RequestException ''connection refused'')))
           (JObj [(''prompt'', JStr ''a cat'')])) =
     Inr (JObj [(''error'', JStr ''Request failed: connection refused'')], 500)"
proof -
  let ?d = "[(''prompt'', JStr ''a cat'')]"
  have p: "fst (generate_image_core (demo_env ''key'' outcome) (JObj ?d)) =
     [upstream_request (demo_env ''key'' outcome) ?d]" for outcome
    by (simp add: demo_posted)
  from upstream_outcome_mapping [OF p [of "Inl Timeout"]]
    upstream_outcome_mapping [OF p [of "Inr \<lparr>status_code = 429, resp_text = ''rate limited'',
                                     resp_json = Inl (OtherException ''no JSON'')\<rparr>"]]
    upstream_outcome_mapping [OF p [of "Inl (RequestException ''connection refused'')"]]
  show ?thesis
    by (simp add: demo_requests_post str_int_429)
qed

section \<open>The translation of the reply\<close>

text \<open>
  Claim C2. For a reply with status 200 whose body is a JSON object: when the body has
  no \<open>data\<close> key, or its \<open>data\<close> is the empty array, the core returns
  \<^verbatim>\<open>No images generated\<close> with status 500; when \<open>data\<close> is a non-empty array whose
  entries are all objects with neither \<open>url\<close> nor \<open>b64_json\<close>, the core returns a success
  reply with status 200 whose \<open>images\<close> is empty. The two outcomes differ.
\<close>

theorem no_images_versus_empty_images:
  assumes "fst (generate_image_core env data) = [req]"
    and "requests_post env req = Inr resp"
    and "status_code resp = 200"
    and "resp_json resp = Inr (JObj body)"
  shows "(map_of body ''data'' = None \<or> map_of body ''data'' = Some (JList []) \<longrightarrow>
            snd (generate_image_core env data) =
              Inr (JObj [(''error'', JStr ''No images generated'')], 500))
       \<and> (\<forall>entries. map_of body ''data'' = Some (JList entries) \<and> entries \<noteq> [] \<and>
              (\<forall>e \<in> set entries. \<exists>f. e = JObj f \<and> map_of f ''url'' = None \<and>
                                             map_of f ''b64_json'' = None) \<longrightarrow>
            (\<exists>result. snd (generate_image_core env data) = Inr (JObj result, 200) \<and>
                      map_of result ''success'' = Some (JBool True) \<and>
                      map_of result ''images'' = Some (JList [])))"
proof (intro conjI allI impI)
  from assms(1) obtain d where req: "req = upstream_request env d"
    and snd: "snd (generate_image_core env data) = after_post env d"
    by (rule posted_validated)
  note ap = after_post_200 [OF assms(2) [unfolded req] assms(3,4)]
  {
    assume "map_of body ''data'' = None \<or> map_of body ''data'' = Some (JList [])"
    then have "has_data (JObj body) = Inr False" by auto
    then show "snd (generate_image_core env data) =
              Inr (JObj [(''error'', JStr ''No images generated'')], 500)"
      by (simp add: snd ap)
  }
  fix entries
  assume h: "map_of body ''data'' = Some (JList entries) \<and> entries \<noteq> [] \<and>
              (\<forall>e \<in> set entries. \<exists>f. e = JObj f \<and> map_of f ''url'' = None \<and>
                                             map_of f ''b64_json'' = None)"
  then have hd: "has_data (JObj body) = Inr True"
    and it: "py_iter (result_data (JObj body)) = entries"
    by (simp_all add: dict_get_def)
  from h have none: "\<forall>e \<in> set entries. \<exists>f. e = JObj f \<and> map_of f ''url'' = None \<and>
                                             map_of f ''b64_json'' = None" by simp
  then have wt: "list_all entry_well_typed entries"
    by (auto simp: list_all_iff)
  from none have "spec_images_from i entries = []" for i
  proof (induction entries arbitrary: i)
    case Nil
    then show ?case by (simp add: spec_images_from_Nil)
  next
    case (Cons e es)
    then show ?case by (auto simp: spec_images_from_Cons)
  qed
  with process_images_spec [OF wt, of 0 "[]"]
  have "process_images 0 entries [] = Inr []" by simp
  with hd it have "snd (generate_image_core env data) = Inr (success_body env d [], 200)"
    by (simp add: snd ap)
  then show "\<exists>result. snd (generate_image_core env data) = Inr (JObj result, 200) \<and>
                      map_of result ''success'' = Some (JBool True) \<and>
                      map_of result ''images'' = Some (JList [])"
    by (simp add: success_body_def)
qed

theorem no_images_versus_empty_images_witness:
  "snd (generate_image_core (demo_env ''key'' (Inr (demo_response (JObj [(''data'', JList [])]))))
        (JObj [(''prompt'', JStr ''a cat'')])) =
     Inr (JObj [(''error'', JStr ''No images generated'')], 500)
   \<and> (\<exists>result.
        snd (generate_image_core
               (demo_env ''key'' (Inr (demo_response
                  (JObj [(''data'', JList [JObj [], JObj [(''index'', JInt 1)]])]))))
               (JObj [(''prompt'', JStr ''a cat'')])) = Inr (JObj result, 200) \<and>
        map_of result ''success'' = Some (JBool True) \<and>
        map_of result ''images'' = Some (JList []))"
proof -
  let ?d = "[(''prompt'', JStr ''a cat'')]"
  let ?b1 = "[(''data'', JList [])]"
  let ?b2 = "[(''data'', JList [JObj [], JObj [(''index'', JInt 1)]])]"
  have p: "fst (generate_image_core (demo_env ''key'' outcome) (JObj ?d)) =
     [upstream_request (demo_env ''key'' outcome) ?d]" for outcome
    by (simp add: demo_posted)
  have r: "requests_post (demo_env ''key'' (Inr (demo_response b))) req = Inr (demo_response b)"
    "status_code (demo_response b) = 200" "resp_json (demo_response b) = Inr b" for b req
    by (simp_all add: demo_requests_post demo_response_def)
  from no_images_versus_empty_images [OF p r(1) r(2) r(3), of "?b1"]
    no_images_versus_empty_images [OF p r(1) r(2) r(3), of "?b2"]
  show ?thesis by simp
qed

text \<open>
  Claim C1, as amended. For a reply with status 200 whose body has a non-empty \<open>data\<close>
  array, whose entries are objects and in which every \<open>b64_json\<close> value that is read (the
  entry has no \<open>url\<close>) has a length, as a string of base64 data has, the core succeeds
  and its \<open>images\<close> are those of \<open>spec_images\<close>: per entry at most one result, \<open>url\<close>
  before \<open>b64_json\<close> (also when both are present), nothing for an entry with neither,
  and each \<open>index\<close> the position of the entry in the original array, skipped entries
  counted.
\<close>

theorem image_results_by_key_priority:
  assumes "fst (generate_image_core env data) = [req]"
    and "requests_post env req = Inr resp"
    and "status_code resp = 200"
    and "resp_json resp = Inr (JObj body)"
    and "map_of body ''data'' = Some (JList entries)"
    and "entries \<noteq> []"
    and "\<forall>e \<in> set entries. entry_well_typed e"
  shows "\<exists>result. snd (generate_image_core env data) = Inr (JObj result, 200) \<and>
                  map_of result ''images'' = Some (JList (spec_images entries))"
proof -
  from assms(1) obtain d where req: "req = upstream_request env d"
    and snd: "snd (generate_image_core env data) = after_post env d"
    by (rule posted_validated)
  note ap = after_post_200 [OF assms(2) [unfolded req] assms(3,4)]
  from assms(5,6) have hd: "has_data (JObj body) = Inr True"
    and it: "py_iter (result_data (JObj body)) = entries"
    by (simp_all add: dict_get_def)
  from assms(7) have "list_all entry_well_typed entries" by (simp add: list_all_iff)
  from process_images_spec [OF this, of 0 "[]"]
  have "process_images 0 entries [] = Inr (spec_images entries)"
    by (simp add: spec_images_def)
  with hd it have "snd (generate_image_core env data) =
      Inr (success_body env d (spec_images entries), 200)"
    by (simp add: snd ap)
  then show ?thesis by (simp add: success_body_def)
qed

text \<open>
  On \<open>demo_entries\<close> the results carry the indices 0, 1 and 3: the entry at position 2
  has neither field and the entry at position 3, which has both, is a URL result.
\<close>

theorem image_results_by_key_priority_witness:
  "\<exists>result.
     snd (generate_image_core
            (demo_env ''key'' (Inr (demo_response (JObj [(''data'', JList demo_entries)]))))
            (JObj [(''prompt'', JStr ''a cat'')])) = Inr (JObj result, 200) \<and>
     map_of result ''images'' =
       Some (JList [JObj [(''url'', JStr ''x''), (''index'', JInt 0)],
                    JObj [(''b64_json'', JStr ''y''), (''index'', JInt 1)],
                    JObj [(''url'', JStr ''u''), (''index'', JInt 3)]])"
proof -
  let ?d = "[(''prompt'', JStr ''a cat'')]"
  let ?b = "[(''data'', JList demo_entries)]"
  let ?env = "demo_env ''key'' (Inr (demo_response (JObj ?b)))"
  have p: "fst (generate_image_core ?env (JObj ?d)) = [upstream_request ?env ?d]"
    by (simp add: demo_posted)
  have r: "requests_post ?env (upstream_request ?env ?d) = Inr (demo_response (JObj ?b))"
    "status_code (demo_response (JObj ?b)) = 200"
    "resp_json (demo_response (JObj ?b)) = Inr (JObj ?b)"
    by (simp_all add: demo_requests_post demo_response_def)
  have e: "map_of ?b ''data'' = Some (JList demo_entries)" "demo_entries \<noteq> []"
    "\<forall>e \<in> set demo_entries. entry_well_typed e"
    by (simp_all add: demo_entries_def)
  from image_results_by_key_priority [OF p r e]
  show ?thesis by (simp add: spec_images_demo)
qed

text \<open>
  The claim as first stated covers every entry that has a \<open>b64_json\<close> field. For the
  reply whose second entry is \<^verbatim>\<open>{"b64_json": null}\<close> the translation of the claim
  has a result with index 1 for that entry, while the core, at the \<^verbatim>\<open>len\<close> of the
  log line 148, raises a \<open>TypeError\<close> that no \<^verbatim>\<open>except\<close> clause catches: the request
  fails and no image is returned.
\<close>

theorem null_base64_entry_raises:
  "generate_image_core
     (demo_env ''key'' (Inr (demo_response
        (JObj [(''data'', JList [JObj [(''url'', JStr ''x'')], JObj [(''b64_json'', JNull)]])]))))
     (JObj [(''prompt'', JStr ''a cat'')]) =
     ([upstream_request
         (demo_env ''key'' (Inr (demo_response
            (JObj [(''data'', JList [JObj [(''url'', JStr ''x'')], JObj [(''b64_json'', JNull)]])]))))
         [(''prompt'', JStr ''a cat'')]],
      Inl TypeError)
   \<and> spec_images [JObj [(''url'', JStr ''x'')], JObj [(''b64_json'', JNull)]] =
     [JObj [(''url'', JStr ''x''), (''index'', JInt 0)],
      JObj [(''b64_json'', JNull), (''index'', JInt 1)]]"
proof -
  let ?b = "[(''data'', JList [JObj [(''url'', JStr ''x'')], JObj [(''b64_json'', JNull)]])]"
  let ?env = "demo_env ''key'' (Inr (demo_response (JObj ?b)))"
  let ?d = "[(''prompt'', JStr ''a cat'')]"
  have v: "validated ?env ?d" by (rule demo_validated) simp_all
  have r: "requests_post ?env (upstream_request ?env ?d) = Inr (demo_response (JObj ?b))"
    "status_code (demo_response (JObj ?b)) = 200"
    "resp_json (demo_response (JObj ?b)) = Inr (JObj ?b)"
    by (simp_all add: demo_requests_post demo_response_def)
  have "after_post ?env ?d = Inl TypeError"
    by (simp add: after_post_200 [OF r] dict_get_def)
  with v show ?thesis
    by (simp add: core_validated spec_images_def spec_images_from_Cons spec_images_from_Nil)
qed

text \<open>
  Claim C10. Whenever the core returns status 200, it has posted one request, the reply
  was a JSON object with a \<open>data\<close> array, and the \<open>images\<close> of the result are image
  results (one encoding, \<open>url\<close> or \<open>b64_json\<close>, never both, and an index) for strictly
  increasing positions of that array; there are no more images than entries.
\<close>

theorem image_results_invariant:
  assumes "snd (generate_image_core env data) = Inr (result, 200)"
  shows "\<exists>req resp body entries fields images idx.
           fst (generate_image_core env data) = [req] \<and>
           requests_post env req = Inr resp \<and>
           resp_json resp = Inr (JObj body) \<and>
           map_of body ''data'' = Some (JList entries) \<and>
           result = JObj fields \<and>
           map_of fields ''images'' = Some (JList images) \<and>
           list_all2 image_result_at images idx \<and>
           sorted_wrt (<) idx \<and>
           (\<forall>j \<in> set idx. j < length entries) \<and>
           length images \<le> length entries"
proof -
  from assms obtain d where d: "data = JObj d" "validated env d"
    by (rule core_200_validated)
  then have core: "generate_image_core env data = ([upstream_request env d], after_post env d)"
    by (simp add: core_validated)
  with assms have "after_post env d = Inr (result, 200)" by simp
  then obtain resp body images where
    r: "requests_post env (upstream_request env d) = Inr resp" "resp_json resp = Inr body"
      "has_data body = Inr True"
      "process_images 0 (py_iter (result_data body)) [] = Inr images"
      "result = success_body env d images"
    by (rule after_post_200_inv)
  from r(3,4) obtain b entries where
    b: "body = JObj b" "map_of b ''data'' = Some (JList entries)"
      "py_iter (result_data body) = entries"
    by (rule iterated_data_is_list)
  from r(4) b(3) have pi: "process_images 0 entries [] = Inr images" by simp
  then have "list_all entry_well_typed entries" by (rule process_images_well_typed)
  from process_images_spec [OF this, of 0 "[]"] pi
  have images: "images = spec_images_from 0 entries" by simp
  from spec_images_shape [of 0 entries] obtain idx where
    "list_all2 image_result_at images idx" "sorted_wrt (<) idx"
    "\<forall>j \<in> set idx. j < length entries" "length images \<le> length entries"
    unfolding images by auto
  with core r b show ?thesis
    by (auto simp: success_body_def)
qed

theorem image_results_invariant_witness:
  "\<exists>req resp body entries fields images idx.
     fst (generate_image_core
            (demo_env ''key'' (Inr (demo_response (JObj [(''data'', JList demo_entries)]))))
            (JObj [(''prompt'', JStr ''a cat'')])) = [req] \<and>
     requests_post
       (demo_env ''key'' (Inr (demo_response (JObj [(''data'', JList demo_entries)])))) req =
       Inr resp \<and>
     resp_json resp = Inr (JObj body) \<and>
     map_of body ''data'' = Some (JList entries) \<and>
     success_body
       (demo_env ''key'' (Inr (demo_response (JObj [(''data'', JList demo_entries)]))))
       [(''prompt'', JStr ''a cat'')] (spec_images demo_entries) = JObj fields \<and>
     map_of fields ''images'' = Some (JList images) \<and>
     list_all2 image_result_at images idx \<and>
     sorted_wrt (<) idx \<and>
     (\<forall>j \<in> set idx. j < length entries) \<and>
     length images \<le> length entries"
proof -
  have "snd (generate_image_core
          (demo_env ''key'' (Inr (demo_response (JObj [(''data'', JList demo_entries)]))))
          (JObj [(''prompt'', JStr ''a cat'')])) =
     Inr (success_body
            (demo_env ''key'' (Inr (demo_response (JObj [(''data'', JList demo_entries)]))))
            [(''prompt'', JStr ''a cat'')] (spec_images demo_entries), 200)"
    by (rule demo_success) simp_all
  then show ?thesis by (rule image_results_invariant)
qed

section \<open>The echoed parameters\<close>

text \<open>
  Claim C6, as amended. Whenever the core returns status 200, the \<open>parameters\<close> of the
  result are exactly \<open>width\<close>, \<open>height\<close>, \<open>steps\<close>, \<open>n\<close>, \<open>guidance_scale\<close> and
  \<open>negative_prompt\<close>, each with the value the posted payload has for it, which is the
  caller's value or, when the caller omitted it, the default. A seed is not among them.
\<close>

theorem parameters_echo_payload:
  assumes "snd (generate_image_core env data) = Inr (result, 200)"
  shows "\<exists>req d fields w h s n g np.
           data = JObj d \<and>
           fst (generate_image_core env data) = [req] \<and>
           map_of (post_json req) ''width'' = Some w \<and>
           map_of (post_json req) ''height'' = Some h \<and>
           map_of (post_json req) ''steps'' = Some s \<and>
           map_of (post_json req) ''n'' = Some n \<and>
           map_of (post_json req) ''guidance_scale'' = Some g \<and>
           map_of (post_json req) ''negative_prompt'' = Some np \<and>
           w = dict_get d ''width'' (JInt 1024) \<and>
           h = dict_get d ''height'' (JInt 1024) \<and>
           s = dict_get d ''steps'' (JInt 12) \<and>
           n = dict_get d ''n'' (JInt 1) \<and>
           g = dict_get d ''guidance_scale'' (JFloat (Finite (15 / 2))) \<and>
           np = dict_get d ''negative_prompt''
                  (JStr ''blurry, low quality, distorted, pixelated, artifacts, bad anatomy'') \<and>
           result = JObj fields \<and>
           map_of fields ''parameters'' =
             Some (JObj [(''width'', w), (''height'', h), (''steps'', s), (''n'', n),
                         (''guidance_scale'', g), (''negative_prompt'', np)])"
proof -
  from assms obtain d where d: "data = JObj d" "validated env d"
    by (rule core_200_validated)
  then have core: "generate_image_core env data = ([upstream_request env d], after_post env d)"
    by (simp add: core_validated)
  with assms have "after_post env d = Inr (result, 200)" by simp
  then obtain images where r: "result = success_body env d images"
    by (rule after_post_200_inv)
  have pj: "post_json (upstream_request env d) = payload_of d"
    by (simp add: upstream_request_def)
  show ?thesis
    using d(1) core r
    by (simp add: pj payload_fixed_fields payload_optional_fields success_body_def
        dict_get_def default_negative_prompt_def split: option.splits)
qed

theorem parameters_echo_payload_witness:
  "\<exists>req d fields w h s n g np.
     JObj [(''prompt'', JStr ''a cat''), (''seed'', JInt 42), (''n'', JInt 2)] = JObj d \<and>
     fst (generate_image_core
            (demo_env ''key'' (Inr (demo_response (JObj [(''data'', JList demo_entries)]))))
            (JObj [(''prompt'', JStr ''a cat''), (''seed'', JInt 42), (''n'', JInt 2)])) = [req] \<and>
     map_of (post_json req) ''width'' = Some w \<and>
     map_of (post_json req) ''height'' = Some h \<and>
     map_of (post_json req) ''steps'' = Some s \<and>
     map_of (post_json req) ''n'' = Some n \<and>
     map_of (post_json req) ''guidance_scale'' = Some g \<and>
     map_of (post_json req) ''negative_prompt'' = Some np \<and>
     w = dict_get d ''width'' (JInt 1024) \<and>
     h = dict_get d ''height'' (JInt 1024) \<and>
     s = dict_get d ''steps'' (JInt 12) \<and>
     n = dict_get d ''n'' (JInt 1) \<and>
     g = dict_get d ''guidance_scale'' (JFloat (Finite (15 / 2))) \<and>
     np = dict_get d ''negative_prompt''
            (JStr ''blurry, low quality, distorted, pixelated, artifacts, bad anatomy'') \<and>
     success_body
       (demo_env ''key'' (Inr (demo_response (JObj [(''data'', JList demo_entries)]))))
       [(''prompt'', JStr ''a cat''), (''seed'', JInt 42), (''n'', JInt 2)]
       (spec_images demo_entries) = JObj fields \<and>
     map_of fields ''parameters'' =
       Some (JObj [(''width'', w), (''height'', h), (''steps'', s), (''n'', n),
                   (''guidance_scale'', g), (''negative_prompt'', np)])"
proof -
  have "snd (generate_image_core
          (demo_env ''key'' (Inr (demo_response (JObj [(''data'', JList demo_entries)]))))
          (JObj [(''prompt'', JStr ''a cat''), (''seed'', JInt 42), (''n'', JInt 2)])) =
     Inr (success_body
            (demo_env ''key'' (Inr (demo_response (JObj [(''data'', JList demo_entries)]))))
            [(''prompt'', JStr ''a cat''), (''seed'', JInt 42), (''n'', JInt 2)]
            (spec_images demo_entries), 200)"
    by (rule demo_success) simp_all
  then show ?thesis by (rule parameters_echo_payload)
qed

text \<open>
  The claim as first stated has the caller's seed among the echoed parameters. For the
  request with seed 42 the payload carries the seed and the \<open>parameters\<close> of the
  successful result do not.
\<close>

theorem parameters_omit_seed:
  "map post_json
     (fst (generate_image_core
             (demo_env ''key'' (Inr (demo_response (JObj [(''data'', JList demo_entries)]))))
             (JObj [(''prompt'', JStr ''a cat''), (''seed'', JInt 42)]))) =
     [[(''model'', JStr ''black-forest-labs/FLUX.1-schnell-Free''),
       (''prompt'', JStr ''a cat''),
       (''width'', JInt 1024),
       (''height'', JInt 1024),
       (''steps'', JInt 12),
       (''n'', JInt 1),
       (''negative_prompt'',
          JStr ''blurry, low quality, distorted, pixelated, artifacts, bad anatomy''),
       (''seed'', JInt 42),
       (''guidance_scale'', JFloat (Finite (15 / 2)))]]
   \<and> snd (generate_image_core
             (demo_env ''key'' (Inr (demo_response (JObj [(''data'', JList demo_entries)]))))
             (JObj [(''prompt'', JStr ''a cat''), (''seed'', JInt 42)])) =
     Inr (JObj [(''success'', JBool True),
                (''images'',
                   JList [JObj [(''url'', JStr ''x''), (''index'', JInt 0)],
                          JObj [(''b64_json'', JStr ''y''), (''index'', JInt 1)],
                          JObj [(''url'', JStr ''u''), (''index'', JInt 3)]]),
                (''prompt'', JStr ''a cat''),
                (''model'', JStr ''black-forest-labs/FLUX.1-schnell-Free''),
                (''parameters'',
                   JObj [(''width'', JInt 1024),
                         (''height'', JInt 1024),
                         (''steps'', JInt 12),
                         (''n'', JInt 1),
                         (''guidance_scale'', JFloat (Finite (15 / 2))),
                         (''negative_prompt'',
                            JStr ''blurry, low quality, distorted, pixelated, artifacts, bad anatomy'')]),
                (''timestamp'', JStr ''2025-01-01T00:00:00'')], 200)"
proof -
  let ?d = "[(''prompt'', JStr ''a cat''), (''seed'', JInt 42)]"
  let ?env = "demo_env ''key'' (Inr (demo_response (JObj [(''data'', JList demo_entries)])))"
  have "fst (generate_image_core ?env (JObj ?d)) = [upstream_request ?env ?d]"
    by (simp add: demo_posted)
  moreover have "post_json (upstream_request ?env ?d) =
     [(''model'', JStr ''black-forest-labs/FLUX.1-schnell-Free''),
       (''prompt'', JStr ''a cat''),
       (''width'', JInt 1024),
       (''height'', JInt 1024),
       (''steps'', JInt 12),
       (''n'', JInt 1),
       (''negative_prompt'',
          JStr ''blurry, low quality, distorted, pixelated, artifacts, bad anatomy''),
       (''seed'', JInt 42),
       (''guidance_scale'', JFloat (Finite (15 / 2)))]"
    by (simp add: upstream_request_def payload_of_def build_payload_def dict_get_def
        AVAILABLE_MODELS_def default_negative_prompt_def)
  moreover have "snd (generate_image_core ?env (JObj ?d)) =
     Inr (success_body ?env ?d (spec_images demo_entries), 200)"
    by (rule demo_success) simp_all
  moreover have "dict_get (payload_of ?d) ''guidance_scale'' JNull = JFloat (Finite (15 / 2))"
    "dict_get (payload_of ?d) ''negative_prompt'' JNull =
       JStr ''blurry, low quality, distorted, pixelated, artifacts, bad anatomy''"
    by (simp_all add: payload_optional_fields dict_get_def default_negative_prompt_def)
  ultimately show ?thesis
    by (simp add: success_body_def spec_images_demo dict_get_def AVAILABLE_MODELS_def
        demo_env_def)
qed

section \<open>The simple route and the full route\<close>

text \<open>
  Claim C8. \<^verbatim>\<open>/generate-simple\<close> with the body \<open>simple_body\<close> and \<^verbatim>\<open>/generate\<close> with the
  body \<open>full_body\<close> both run the core on \<open>full_body\<close>: they post the same requests, whose
  payload (when the credential is configured) is the one shown, and both return the
  core's reply and status when the core returns. They differ only in the message they
  make of an exception that leaves the core.
\<close>

theorem simple_route_as_full_route:
  "generate_image_simple env (Inr simple_body) =
     (fst (generate_image_core env full_body),
      case snd (generate_image_core env full_body) of
        Inr reply \<Rightarrow> reply
      | Inl ex \<Rightarrow> (JObj [(''error'', JStr (exc_str env ex))], 500))
   \<and> generate_image env (Inr full_body) =
     (fst (generate_image_core env full_body),
      case snd (generate_image_core env full_body) of
        Inr reply \<Rightarrow> reply
      | Inl ex \<Rightarrow>
          (JObj [(''error'', JStr (''Internal server error: '' @ exc_str env ex))], 500))
   \<and> map post_json (fst (generate_image_core env full_body)) =
     (if TOGETHER_API_KEY env = [] then []
      else [[(''model'', JStr ''black-forest-labs/FLUX.1-schnell-Free''),
             (''prompt'', JStr ''a cat''),
             (''width'', JInt 1024),
             (''height'', JInt 1024),
             (''steps'', JInt 12),
             (''n'', JInt 1),
             (''negative_prompt'',
                JStr ''blurry, low quality, distorted, pixelated, artifacts, bad anatomy''),
             (''guidance_scale'', JFloat (Finite (15 / 2)))]])"
proof (intro conjI)
  show "generate_image_simple env (Inr simple_body) =
     (fst (generate_image_core env full_body),
      case snd (generate_image_core env full_body) of
        Inr reply \<Rightarrow> reply
      | Inl ex \<Rightarrow> (JObj [(''error'', JStr (exc_str env ex))], 500))"
    by (simp add: generate_image_simple_def simple_body_def full_body_def dict_get_def
        split: prod.splits sum.splits)
  show "generate_image env (Inr full_body) =
     (fst (generate_image_core env full_body),
      case snd (generate_image_core env full_body) of
        Inr reply \<Rightarrow> reply
      | Inl ex \<Rightarrow>
          (JObj [(''error'', JStr (''Internal server error: '' @ exc_str env ex))], 500))"
    by (simp add: generate_image_def full_body_def split: prod.splits sum.splits)
  show "map post_json (fst (generate_image_core env full_body)) =
     (if TOGETHER_API_KEY env = [] then []
      else [[(''model'', JStr ''black-forest-labs/FLUX.1-schnell-Free''),
             (''prompt'', JStr ''a cat''),
             (''width'', JInt 1024),
             (''height'', JInt 1024),
             (''steps'', JInt 12),
             (''n'', JInt 1),
             (''negative_prompt'',
                JStr ''blurry, low quality, distorted, pixelated, artifacts, bad anatomy''),
             (''guidance_scale'', JFloat (Finite (15 / 2)))]])"
  proof (cases "TOGETHER_API_KEY env = []")
    case True
    then show ?thesis by (simp add: generate_image_core_def)
  next
    case False
    from core_simple_body_validated [OF this] False show ?thesis
      by (simp add: full_body_def core_validated upstream_request_def payload_of_def
          build_payload_def dict_get_def AVAILABLE_MODELS_def default_negative_prompt_def)
  qed
qed

theorem simple_route_as_full_route_witness:
  "generate_image_simple (demo_env ''key'' (Inl Timeout)) (Inr simple_body) =
     generate_image (demo_env ''key'' (Inl Timeout)) (Inr full_body)
   \<and> generate_image (demo_env ''key'' (Inl Timeout)) (Inr full_body) =
     ([upstream_request (demo_env ''key'' (Inl Timeout))
         [(''prompt'', JStr ''a cat''), (''model'', JStr (AVAILABLE_MODELS ! 0)),
          (''width'', JInt 1024), (''height'', JInt 1024), (''steps'', JInt 12),
          (''n'', JInt 1)]],
      JObj [(''error'', JStr ''Request timeout - image generation took too long'')], 408)"
proof -
  let ?env = "demo_env ''key'' (Inl Timeout)"
  let ?d = "[(''prompt'', JStr ''a cat''), (''model'', JStr (AVAILABLE_MODELS ! 0)),
          (''width'', JInt 1024), (''height'', JInt 1024), (''steps'', JInt 12),
          (''n'', JInt 1)]"
  have "validated ?env ?d"
    by (rule core_simple_body_validated) (simp add: demo_env_def)
  then have "generate_image_core ?env full_body =
      ([upstream_request ?env ?d],
       Inr (JObj [(''error'', JStr ''Request timeout - image generation took too long'')], 408))"
    by (simp add: full_body_def core_validated after_post_raised demo_requests_post)
  with simple_route_as_full_route [of ?env] show ?thesis by simp
qed

end
